theory Spec2Isabelle
  imports Complex_Main "HOL-Library.Monad_Syntax"
begin

section \<open>Synthetic municipal finance generator (WFucom.py)\<close>

text \<open>
  A shallow embedding of the class \<open>WallisFutunaCommuneFinanceAnalyzer\<close>: the
  configuration resolver, the per-metric series generators, the table assembly and the
  adjustment pass \<open>_add_municipal_trends\<close>. Python floats are read as real numbers, so
  every equation below is an equation of exact arithmetic; rounding is not modelled.
  The leading underscore of the private method names is dropped.
\<close>

subsection \<open>Configuration resolver\<close>

text \<open>
  One entry of the dictionary \<open>configs\<close>. The field \<open>type\<close> of the source is named
  \<open>type_c\<close> here.
\<close>

record config =
  population_base :: real
  budget_base :: real
  type_c :: string
  specialites :: "string list"

definition default_config :: config where
  "default_config =
     \<lparr>population_base = 2000, budget_base = 30, type_c = ''district'',
      specialites = [''agriculture'', ''peche'', ''artisanat'', ''services_locaux'']\<rparr>"

definition configs :: "(string \<times> config) list" where
  "configs =
     [(''Mata-Utu'',
        \<lparr>population_base = 1200, budget_base = 35, type_c = ''chef_lieu'',
         specialites = [''administration'', ''commerce'', ''port'', ''tourisme'', ''services'']\<rparr>),
      (''Hahake'',
        \<lparr>population_base = 2500, budget_base = 30, type_c = ''district'',
         specialites = [''agriculture'', ''elevage'', ''artisanat'', ''culture'']\<rparr>),
      (''Hihifo'',
        \<lparr>population_base = 1800, budget_base = 28, type_c = ''district'',
         specialites = [''peche'', ''agriculture'', ''tourisme'', ''patrimoine'']\<rparr>),
      (''Mua'',
        \<lparr>population_base = 2200, budget_base = 32, type_c = ''district'',
         specialites = [''agriculture'', ''elevage'', ''artisanat'', ''services'']\<rparr>),
      (''Sigave'',
        \<lparr>population_base = 1500, budget_base = 28, type_c = ''district_futuna'',
         specialites = [''peche'', ''agriculture'', ''culture'', ''artisanat'']\<rparr>),
      (''Alo'',
        \<lparr>population_base = 2000, budget_base = 30, type_c = ''district_futuna'',
         specialites = [''agriculture'', ''elevage'', ''peche'', ''tourisme'']\<rparr>),
      (''default'', default_config)]"

text \<open>\<open>configs.get(self.commune, configs["default"])\<close>\<close>

definition get_commune_config :: "string \<Rightarrow> config" where
  "get_commune_config commune_name =
     (case map_of configs commune_name of
        Some c \<Rightarrow> c
      | None \<Rightarrow> (case map_of configs ''default'' of Some d \<Rightarrow> d | None \<Rightarrow> default_config))"

text \<open>
  The object built by \<open>__init__\<close>. The colour palette is used by the charts only and is
  left out.
\<close>

record analyzer =
  commune :: string
  start_year :: int
  end_year :: int
  config :: config

definition init :: "string \<Rightarrow> analyzer" where
  "init commune_name =
     \<lparr>commune = commune_name, start_year = 2002, end_year = 2025,
      config = get_commune_config commune_name\<rparr>"

subsection \<open>The random source and the loops\<close>

text \<open>
  \<open>np.random.normal(loc, scale)\<close> reads the global generator. The generator is modelled
  by the sequence \<open>z\<close> of standard normal draws it is going to produce and by the number
  \<open>p\<close> of draws already consumed; a draw returns \<open>loc + scale * z p\<close> and moves the
  position on by one. The definitions assume nothing about the values of \<open>z\<close>.
  \<open>np.random.normal\<close> is the legacy sampler of NumPy: it computes a standard draw by the
  polar Box-Muller method from two uniform numbers of 53 bits, so the absolute value of a
  standard draw is at most the square root of \<open>208 * ln 2\<close>, which is below 12.01. Where
  a property needs this bound it is stated as a hypothesis on \<open>z\<close>.
\<close>

definition normal :: "(nat \<Rightarrow> real) \<Rightarrow> real \<Rightarrow> real \<Rightarrow> nat \<Rightarrow> real \<times> nat" where
  "normal z loc scale p = (loc + scale * z p, Suc p)"

text \<open>
  \<open>pd.date_range(start=f'{start_year}-01-01', end=f'{end_year}-12-31', freq='Y')\<close>
  holds the last day of every year of the range; the code reads only \<open>date.year\<close>, so a
  date is modelled by its year.
\<close>

definition date_range :: "int \<Rightarrow> int \<Rightarrow> int list" where
  "date_range s e = [s..e]"

text \<open>
  The loop \<open>for i, date in enumerate(dates)\<close> whose body draws one noise value and
  appends one value computed from the index, the year and the draw.
\<close>

fun noisy_loop ::
  "(nat \<Rightarrow> real) \<Rightarrow> real \<Rightarrow> real \<Rightarrow> (nat \<Rightarrow> int \<Rightarrow> real \<Rightarrow> real) \<Rightarrow> nat \<Rightarrow> int list \<Rightarrow> nat
   \<Rightarrow> real list \<times> nat" where
  "noisy_loop z loc scale body i [] p = ([], p)"
| "noisy_loop z loc scale body i (year # dates) p =
     (case normal z loc scale p of (noise, p1) \<Rightarrow>
        (case noisy_loop z loc scale body (Suc i) dates p1 of (vs, p2) \<Rightarrow>
           (body i year noise # vs, p2)))"

subsection \<open>Series generators\<close>

definition simulate_population :: "analyzer \<Rightarrow> int list \<Rightarrow> real list" where
  "simulate_population self dates =
     (let base_population = population_base (config self) in
      map (\<lambda>(i, year).
             let growth_rate =
                   (if type_c (config self) = ''chef_lieu'' then 0.01
                    else if type_c (config self) = ''district_futuna'' then 0.008
                    else 0.009);
                 growth = 1 + growth_rate * real i
             in base_population * growth)
          (enumerate 0 dates))"

definition simulate_households :: "analyzer \<Rightarrow> int list \<Rightarrow> real list" where
  "simulate_households self dates =
     (let base_households = population_base (config self) / 4.5 in
      map (\<lambda>(i, year). let growth = 1 + 0.008 * real i in base_households * growth)
          (enumerate 0 dates))"

definition simulate_total_revenue ::
  "analyzer \<Rightarrow> int list \<Rightarrow> (nat \<Rightarrow> real) \<Rightarrow> nat \<Rightarrow> real list \<times> nat" where
  "simulate_total_revenue self dates z p =
     (let base_revenue = budget_base (config self) in
      noisy_loop z 1 0.08
        (\<lambda>i year noise.
           let growth_rate =
                 (if type_c (config self) = ''chef_lieu'' then 0.028
                  else if type_c (config self) = ''district_futuna'' then 0.025
                  else 0.026);
               growth = 1 + growth_rate * real i
           in base_revenue * growth * noise)
        0 dates p)"

definition simulate_tax_revenue ::
  "analyzer \<Rightarrow> int list \<Rightarrow> (nat \<Rightarrow> real) \<Rightarrow> nat \<Rightarrow> real list \<times> nat" where
  "simulate_tax_revenue self dates z p =
     (let base_tax = budget_base (config self) * 0.25 in
      noisy_loop z 1 0.09
        (\<lambda>i year noise. let growth = 1 + 0.015 * real i in base_tax * growth * noise)
        0 dates p)"

definition simulate_state_grants ::
  "analyzer \<Rightarrow> int list \<Rightarrow> (nat \<Rightarrow> real) \<Rightarrow> nat \<Rightarrow> real list \<times> nat" where
  "simulate_state_grants self dates z p =
     (let base_grants = budget_base (config self) * 0.55 in
      noisy_loop z 1 0.06
        (\<lambda>i year noise.
           let increase = (if year \<ge> 2010 then 1 + 0.012 * real_of_int (year - 2010) else 1)
           in base_grants * increase * noise)
        0 dates p)"

definition simulate_territorial_grants ::
  "analyzer \<Rightarrow> int list \<Rightarrow> (nat \<Rightarrow> real) \<Rightarrow> nat \<Rightarrow> real list \<times> nat" where
  "simulate_territorial_grants self dates z p =
     (let base_grants = budget_base (config self) * 0.12 in
      noisy_loop z 1 0.07
        (\<lambda>i year noise.
           let increase = (if year \<ge> 2005 then 1 + 0.01 * real_of_int (year - 2005) else 1)
           in base_grants * increase * noise)
        0 dates p)"

definition simulate_other_revenue ::
  "analyzer \<Rightarrow> int list \<Rightarrow> (nat \<Rightarrow> real) \<Rightarrow> nat \<Rightarrow> real list \<times> nat" where
  "simulate_other_revenue self dates z p =
     (let base_other = budget_base (config self) * 0.08 in
      noisy_loop z 1 0.10
        (\<lambda>i year noise. let growth = 1 + 0.018 * real i in base_other * growth * noise)
        0 dates p)"

definition simulate_total_expenses ::
  "analyzer \<Rightarrow> int list \<Rightarrow> (nat \<Rightarrow> real) \<Rightarrow> nat \<Rightarrow> real list \<times> nat" where
  "simulate_total_expenses self dates z p =
     (let base_expenses = budget_base (config self) * 0.98 in
      noisy_loop z 1 0.07
        (\<lambda>i year noise. let growth = 1 + 0.026 * real i in base_expenses * growth * noise)
        0 dates p)"

definition simulate_operating_expenses ::
  "analyzer \<Rightarrow> int list \<Rightarrow> (nat \<Rightarrow> real) \<Rightarrow> nat \<Rightarrow> real list \<times> nat" where
  "simulate_operating_expenses self dates z p =
     (let base_operating = budget_base (config self) * 0.68 in
      noisy_loop z 1 0.06
        (\<lambda>i year noise. let growth = 1 + 0.024 * real i in base_operating * growth * noise)
        0 dates p)"

definition simulate_investment_expenses ::
  "analyzer \<Rightarrow> int list \<Rightarrow> (nat \<Rightarrow> real) \<Rightarrow> nat \<Rightarrow> real list \<times> nat" where
  "simulate_investment_expenses self dates z p =
     (let base_investment = budget_base (config self) * 0.30 in
      noisy_loop z 1 0.16
        (\<lambda>i year noise.
           let multiplier =
                 (if year \<in> set [2006, 2012, 2018, 2023] then 1.6
                  else if year \<in> set [2008, 2014, 2020] then 0.8
                  else 1.0);
               growth = 1 + 0.022 * real i
           in base_investment * growth * multiplier * noise)
        0 dates p)"

definition simulate_debt_charges ::
  "analyzer \<Rightarrow> int list \<Rightarrow> (nat \<Rightarrow> real) \<Rightarrow> nat \<Rightarrow> real list \<times> nat" where
  "simulate_debt_charges self dates z p =
     (let base_debt_charge = budget_base (config self) * 0.06 in
      noisy_loop z 1 0.10
        (\<lambda>i year noise.
           let increase = (if year \<ge> 2005 then 1 + 0.009 * real_of_int (year - 2005) else 1)
           in base_debt_charge * increase * noise)
        0 dates p)"

definition simulate_staff_costs ::
  "analyzer \<Rightarrow> int list \<Rightarrow> (nat \<Rightarrow> real) \<Rightarrow> nat \<Rightarrow> real list \<times> nat" where
  "simulate_staff_costs self dates z p =
     (let base_staff = budget_base (config self) * 0.48 in
      noisy_loop z 1 0.05
        (\<lambda>i year noise. let growth = 1 + 0.026 * real i in base_staff * growth * noise)
        0 dates p)"

definition simulate_gross_savings ::
  "analyzer \<Rightarrow> int list \<Rightarrow> (nat \<Rightarrow> real) \<Rightarrow> nat \<Rightarrow> real list \<times> nat" where
  "simulate_gross_savings self dates z p =
     noisy_loop z 1 0.13
       (\<lambda>i year noise.
          let base_saving = budget_base (config self) * 0.02;
              improvement = (if year \<ge> 2010 then 1 + 0.007 * real_of_int (year - 2010) else 1)
          in base_saving * improvement * noise)
       0 dates p"

definition simulate_total_debt ::
  "analyzer \<Rightarrow> int list \<Rightarrow> (nat \<Rightarrow> real) \<Rightarrow> nat \<Rightarrow> real list \<times> nat" where
  "simulate_total_debt self dates z p =
     (let base_debt = budget_base (config self) * 0.75 in
      noisy_loop z 1 0.09
        (\<lambda>i year noise.
           let change =
                 (if year \<in> set [2006, 2012, 2018, 2023] then 1.25
                  else if year \<in> set [2009, 2015, 2021] then 0.92
                  else 1.0)
           in base_debt * change * noise)
        0 dates p)"

definition simulate_debt_ratio ::
  "analyzer \<Rightarrow> int list \<Rightarrow> (nat \<Rightarrow> real) \<Rightarrow> nat \<Rightarrow> real list \<times> nat" where
  "simulate_debt_ratio self dates z p =
     noisy_loop z 1 0.07
       (\<lambda>i year noise.
          let base_ratio = 0.70;
              improvement = (if year \<ge> 2010 then 1 - 0.01 * real_of_int (year - 2010) else 1)
          in base_ratio * improvement * noise)
       0 dates p"

definition simulate_tax_rate ::
  "analyzer \<Rightarrow> int list \<Rightarrow> (nat \<Rightarrow> real) \<Rightarrow> nat \<Rightarrow> real list \<times> nat" where
  "simulate_tax_rate self dates z p =
     noisy_loop z 1 0.04
       (\<lambda>i year noise.
          let base_rate = 0.80;
              increase = (if year \<ge> 2010 then 1 + 0.004 * real_of_int (year - 2010) else 1)
          in base_rate * increase * noise)
       0 dates p"

definition simulate_agriculture_investment ::
  "analyzer \<Rightarrow> int list \<Rightarrow> (nat \<Rightarrow> real) \<Rightarrow> nat \<Rightarrow> real list \<times> nat" where
  "simulate_agriculture_investment self dates z p =
     (let base_investment = budget_base (config self) * 0.07;
          multiplier = (if ''agriculture'' \<in> set (specialites (config self)) then 1.5 else 0.8)
      in noisy_loop z 1 0.15
           (\<lambda>i year noise.
              let year_multiplier = (if year \<in> set [2005, 2010, 2015, 2020] then 1.8 else 1.0);
                  growth = 1 + 0.026 * real i
              in base_investment * growth * year_multiplier * multiplier * noise)
           0 dates p)"

definition simulate_fishing_investment ::
  "analyzer \<Rightarrow> int list \<Rightarrow> (nat \<Rightarrow> real) \<Rightarrow> nat \<Rightarrow> real list \<times> nat" where
  "simulate_fishing_investment self dates z p =
     (let base_investment = budget_base (config self) * 0.06;
          multiplier = (if ''peche'' \<in> set (specialites (config self)) then 1.6 else 0.7)
      in noisy_loop z 1 0.16
           (\<lambda>i year noise.
              let year_multiplier = (if year \<in> set [2007, 2013, 2019, 2024] then 1.7 else 1.0);
                  growth = 1 + 0.028 * real i
              in base_investment * growth * year_multiplier * multiplier * noise)
           0 dates p)"

definition simulate_transport_investment ::
  "analyzer \<Rightarrow> int list \<Rightarrow> (nat \<Rightarrow> real) \<Rightarrow> nat \<Rightarrow> real list \<times> nat" where
  "simulate_transport_investment self dates z p =
     (let base_investment = budget_base (config self) * 0.05;
          multiplier = (if ''transport'' \<in> set (specialites (config self)) then 1.4 else 0.9)
      in noisy_loop z 1 0.14
           (\<lambda>i year noise.
              let year_multiplier = (if year \<in> set [2006, 2012, 2018, 2023] then 1.6 else 1.0);
                  growth = 1 + 0.024 * real i
              in base_investment * growth * year_multiplier * multiplier * noise)
           0 dates p)"

definition simulate_education_investment ::
  "analyzer \<Rightarrow> int list \<Rightarrow> (nat \<Rightarrow> real) \<Rightarrow> nat \<Rightarrow> real list \<times> nat" where
  "simulate_education_investment self dates z p =
     (let base_investment = budget_base (config self) * 0.06;
          multiplier = (if ''education'' \<in> set (specialites (config self)) then 1.4 else 0.9)
      in noisy_loop z 1 0.17
           (\<lambda>i year noise.
              let year_multiplier = (if year \<in> set [2008, 2014, 2020] then 1.6 else 1.0);
                  growth = 1 + 0.027 * real i
              in base_investment * growth * year_multiplier * multiplier * noise)
           0 dates p)"

definition simulate_health_investment ::
  "analyzer \<Rightarrow> int list \<Rightarrow> (nat \<Rightarrow> real) \<Rightarrow> nat \<Rightarrow> real list \<times> nat" where
  "simulate_health_investment self dates z p =
     (let base_investment = budget_base (config self) * 0.05;
          multiplier = (if ''sante'' \<in> set (specialites (config self)) then 1.5 else 0.9)
      in noisy_loop z 1 0.16
           (\<lambda>i year noise.
              let year_multiplier = (if year \<in> set [2009, 2015, 2021] then 1.7 else 1.0);
                  growth = 1 + 0.025 * real i
              in base_investment * growth * year_multiplier * multiplier * noise)
           0 dates p)"

definition simulate_culture_investment ::
  "analyzer \<Rightarrow> int list \<Rightarrow> (nat \<Rightarrow> real) \<Rightarrow> nat \<Rightarrow> real list \<times> nat" where
  "simulate_culture_investment self dates z p =
     (let base_investment = budget_base (config self) * 0.04;
          multiplier = (if ''culture'' \<in> set (specialites (config self)) then 1.6 else 0.7)
      in noisy_loop z 1 0.15
           (\<lambda>i year noise.
              let year_multiplier = (if year \<in> set [2010, 2016, 2022] then 1.7 else 1.0);
                  growth = 1 + 0.023 * real i
              in base_investment * growth * year_multiplier * multiplier * noise)
           0 dates p)"

subsection \<open>The table\<close>

text \<open>
  A \<open>DataFrame\<close> is kept as the dictionary it is built from: the columns in insertion
  order, each with its list of values; the row labels are the positions \<open>0, 1, ...\<close>.
  The integer column \<open>Annee\<close> is stored as reals, which is also what \<open>iterrows\<close> hands
  out for a table whose other columns are floats. The constructor raises when the lists
  differ in length; a raised exception is the value \<open>None\<close>.
\<close>

type_synonym dataframe = "(string \<times> real list) list"

definition nrows :: "dataframe \<Rightarrow> nat" where
  "nrows df = (case df of [] \<Rightarrow> 0 | (c, xs) # rest \<Rightarrow> length xs)"

definition DataFrame :: "dataframe \<Rightarrow> dataframe option" where
  "DataFrame data =
     (if list_all (\<lambda>(c, xs). length xs = nrows data) data then Some data else None)"

text \<open>\<open>df.loc[i, c]\<close>, a \<open>KeyError\<close> when the column or the row is missing.\<close>

definition loc_get :: "dataframe \<Rightarrow> nat \<Rightarrow> string \<Rightarrow> real option" where
  "loc_get df i c =
     (case map_of df c of
        None \<Rightarrow> None
      | Some xs \<Rightarrow> if i < length xs then Some (xs ! i) else None)"

text \<open>\<open>df.loc[i, c] *= f\<close>\<close>

definition loc_mul :: "dataframe \<Rightarrow> nat \<Rightarrow> string \<Rightarrow> real \<Rightarrow> dataframe option" where
  "loc_mul df i c f =
     (case loc_get df i c of
        None \<Rightarrow> None
      | Some v \<Rightarrow> Some (map (\<lambda>(k, xs). if k = c then (k, xs[i := v * f]) else (k, xs)) df))"

subsection \<open>The adjustment pass\<close>

text \<open>The four statements of the loop body of \<open>_add_municipal_trends\<close>, in order.\<close>

definition developpement_initial :: "real \<Rightarrow> nat \<Rightarrow> dataframe \<Rightarrow> dataframe option" where
  "developpement_initial year i df =
     (if 2002 \<le> year \<and> year \<le> 2005 then do {
        df \<leftarrow> loc_mul df i ''Investissement_Agriculture'' 1.4;
        loc_mul df i ''Investissement_Peche'' 1.3 }
      else Some df)"

definition crise_financiere :: "real \<Rightarrow> nat \<Rightarrow> dataframe \<Rightarrow> dataframe option" where
  "crise_financiere year i df =
     (if 2008 \<le> year \<and> year \<le> 2009 then do {
        df \<leftarrow> loc_mul df i ''Recettes_Totales'' 0.94;
        df \<leftarrow> loc_mul df i ''Investissement'' 0.85;
        loc_mul df i ''Autres_Recettes'' 0.88 }
      else if 2010 \<le> year \<and> year \<le> 2015 then do {
        df \<leftarrow> loc_mul df i ''Investissement_Education'' 1.3;
        loc_mul df i ''Investissement_Sante'' 1.4 }
      else Some df)"

definition crise_covid :: "real \<Rightarrow> nat \<Rightarrow> dataframe \<Rightarrow> dataframe option" where
  "crise_covid year i df =
     (if 2020 \<le> year \<and> year \<le> 2021 then
        (if year = 2020 then do {
           df \<leftarrow> loc_mul df i ''Autres_Recettes'' 0.78;
           loc_mul df i ''Dotations_Etat'' 1.15 }
         else Some df)
      else Some df)"

definition plan_relance :: "real \<Rightarrow> nat \<Rightarrow> dataframe \<Rightarrow> dataframe option" where
  "plan_relance year i df =
     (if year \<ge> 2022 then do {
        df \<leftarrow> loc_mul df i ''Investissement'' 1.14;
        df \<leftarrow> loc_mul df i ''Investissement_Agriculture'' 1.12;
        loc_mul df i ''Investissement_Peche'' 1.10 }
      else Some df)"

definition trend_row :: "real \<Rightarrow> nat \<Rightarrow> dataframe \<Rightarrow> dataframe option" where
  "trend_row year i df = do {
     df \<leftarrow> developpement_initial year i df;
     df \<leftarrow> crise_financiere year i df;
     df \<leftarrow> crise_covid year i df;
     plan_relance year i df }"

text \<open>
  \<open>for i, row in df.iterrows()\<close>: the rows are read from the table as it was when the
  loop started (\<open>rows\<close>), the writes go to the table itself.
\<close>

fun iterrows_loop :: "dataframe \<Rightarrow> nat list \<Rightarrow> dataframe \<Rightarrow> dataframe option" where
  "iterrows_loop rows [] df = Some df"
| "iterrows_loop rows (i # labels) df =
     (case loc_get rows i ''Annee'' of
        None \<Rightarrow> None
      | Some year \<Rightarrow>
          (case trend_row year i df of
             None \<Rightarrow> None
           | Some df' \<Rightarrow> iterrows_loop rows labels df'))"

definition add_municipal_trends :: "dataframe \<Rightarrow> dataframe option" where
  "add_municipal_trends df = iterrows_loop df [0..<nrows df] df"

subsection \<open>Table assembly\<close>

text \<open>
  \<open>generate_financial_data\<close> returns the table (the pass changes it in place, so the
  table returned is the one after the pass) and the position of the random source after
  the call. The \<open>print\<close> is left out.
\<close>

definition generate_financial_data ::
  "analyzer \<Rightarrow> (nat \<Rightarrow> real) \<Rightarrow> nat \<Rightarrow> dataframe option \<times> nat" where
  "generate_financial_data self z p =
     (let dates = date_range (start_year self) (end_year self);
          annee = map real_of_int dates;
          population = simulate_population self dates;
          menages = simulate_households self dates;
          (recettes_totales, p) = simulate_total_revenue self dates z p;
          (impots_locaux, p) = simulate_tax_revenue self dates z p;
          (dotations_etat, p) = simulate_state_grants self dates z p;
          (dotations_territoriales, p) = simulate_territorial_grants self dates z p;
          (autres_recettes, p) = simulate_other_revenue self dates z p;
          (depenses_totales, p) = simulate_total_expenses self dates z p;
          (fonctionnement, p) = simulate_operating_expenses self dates z p;
          (investissement, p) = simulate_investment_expenses self dates z p;
          (charge_dette, p) = simulate_debt_charges self dates z p;
          (personnel, p) = simulate_staff_costs self dates z p;
          (epargne_brute, p) = simulate_gross_savings self dates z p;
          (dette_totale, p) = simulate_total_debt self dates z p;
          (taux_endettement, p) = simulate_debt_ratio self dates z p;
          (taux_fiscalite, p) = simulate_tax_rate self dates z p;
          (investissement_agriculture, p) = simulate_agriculture_investment self dates z p;
          (investissement_peche, p) = simulate_fishing_investment self dates z p;
          (investissement_transport, p) = simulate_transport_investment self dates z p;
          (investissement_education, p) = simulate_education_investment self dates z p;
          (investissement_sante, p) = simulate_health_investment self dates z p;
          (investissement_culture, p) = simulate_culture_investment self dates z p;
          data =
            [(''Annee'', annee),
             (''Population'', population),
             (''Menages'', menages),
             (''Recettes_Totales'', recettes_totales),
             (''Impots_Locaux'', impots_locaux),
             (''Dotations_Etat'', dotations_etat),
             (''Dotations_Territoriales'', dotations_territoriales),
             (''Autres_Recettes'', autres_recettes),
             (''Depenses_Totales'', depenses_totales),
             (''Fonctionnement'', fonctionnement),
             (''Investissement'', investissement),
             (''Charge_Dette'', charge_dette),
             (''Personnel'', personnel),
             (''Epargne_Brute'', epargne_brute),
             (''Dette_Totale'', dette_totale),
             (''Taux_Endettement'', taux_endettement),
             (''Taux_Fiscalite'', taux_fiscalite),
             (''Investissement_Agriculture'', investissement_agriculture),
             (''Investissement_Peche'', investissement_peche),
             (''Investissement_Transport'', investissement_transport),
             (''Investissement_Education'', investissement_education),
             (''Investissement_Sante'', investissement_sante),
             (''Investissement_Culture'', investissement_culture)]
      in (DataFrame data \<bind> add_municipal_trends, p))"

subsection \<open>Notions used in the proofs\<close>

text \<open>
  None of the following is code of the program. \<open>scaled\<close> and \<open>adjusted\<close> relate a table
  to a later state of itself, \<open>trend_factor\<close> is the net factor the pass applies to a
  cell, and \<open>raw_table\<close> is the dictionary \<open>data\<close> with the positions of the random
  source written out.
\<close>

definition scaled :: "nat \<Rightarrow> (string \<Rightarrow> real) \<Rightarrow> dataframe \<Rightarrow> dataframe \<Rightarrow> bool" where
  "scaled i s df df' \<longleftrightarrow>
     map fst df' = map fst df \<and>
     map (length \<circ> snd) df' = map (length \<circ> snd) df \<and>
     (\<forall>c. map_of df' c = map_option (\<lambda>xs. xs[i := xs ! i * s c]) (map_of df c))"

definition has_col :: "dataframe \<Rightarrow> nat \<Rightarrow> string \<Rightarrow> bool" where
  "has_col df n c = (case map_of df c of None \<Rightarrow> False | Some xs \<Rightarrow> length xs = n)"

definition pass_columns :: "string list" where
  "pass_columns =
     [''Investissement_Agriculture'', ''Investissement_Peche'', ''Recettes_Totales'',
      ''Investissement'', ''Autres_Recettes'', ''Investissement_Education'',
      ''Investissement_Sante'', ''Dotations_Etat'']"

definition ready :: "nat \<Rightarrow> dataframe \<Rightarrow> bool" where
  "ready n df = list_all (has_col df n) pass_columns"

definition factor_initial :: "real \<Rightarrow> string \<Rightarrow> real" where
  "factor_initial year c =
     (if 2002 \<le> year \<and> year \<le> 2005 then
        (if c = ''Investissement_Agriculture'' then 1.4
         else if c = ''Investissement_Peche'' then 1.3 else 1)
      else 1)"

definition factor_crise :: "real \<Rightarrow> string \<Rightarrow> real" where
  "factor_crise year c =
     (if 2008 \<le> year \<and> year \<le> 2009 then
        (if c = ''Recettes_Totales'' then 0.94
         else if c = ''Investissement'' then 0.85
         else if c = ''Autres_Recettes'' then 0.88 else 1)
      else if 2010 \<le> year \<and> year \<le> 2015 then
        (if c = ''Investissement_Education'' then 1.3
         else if c = ''Investissement_Sante'' then 1.4 else 1)
      else 1)"

definition factor_covid :: "real \<Rightarrow> string \<Rightarrow> real" where
  "factor_covid year c =
     (if year = 2020 then
        (if c = ''Autres_Recettes'' then 0.78
         else if c = ''Dotations_Etat'' then 1.15 else 1)
      else 1)"

definition factor_relance :: "real \<Rightarrow> string \<Rightarrow> real" where
  "factor_relance year c =
     (if year \<ge> 2022 then
        (if c = ''Investissement'' then 1.14
         else if c = ''Investissement_Agriculture'' then 1.12
         else if c = ''Investissement_Peche'' then 1.10 else 1)
      else 1)"

definition trend_factor :: "real \<Rightarrow> string \<Rightarrow> real" where
  "trend_factor year c =
     factor_initial year c * factor_crise year c * factor_covid year c * factor_relance year c"

definition adjusted :: "nat set \<Rightarrow> real list \<Rightarrow> dataframe \<Rightarrow> dataframe \<Rightarrow> bool" where
  "adjusted S ys df d \<longleftrightarrow>
     map fst d = map fst df \<and>
     map (length \<circ> snd) d = map (length \<circ> snd) df \<and>
     (\<forall>c. map_of d c =
            map_option (\<lambda>xs. map (\<lambda>j. if j \<in> S then xs ! j * trend_factor (ys ! j) c else xs ! j)
                                 [0..<length xs])
              (map_of df c))"

definition trend_columns :: "string list" where
  "trend_columns = ''Annee'' # pass_columns"

definition raw_table :: "analyzer \<Rightarrow> (nat \<Rightarrow> real) \<Rightarrow> nat \<Rightarrow> dataframe" where
  "raw_table self z p =
     (let dates = date_range (start_year self) (end_year self) in
       [(''Annee'', map real_of_int dates),
        (''Population'', simulate_population self dates),
        (''Menages'', simulate_households self dates),
        (''Recettes_Totales'', fst (simulate_total_revenue self dates z (p + 0 * length dates))),
        (''Impots_Locaux'', fst (simulate_tax_revenue self dates z (p + 1 * length dates))),
        (''Dotations_Etat'', fst (simulate_state_grants self dates z (p + 2 * length dates))),
        (''Dotations_Territoriales'', fst (simulate_territorial_grants self dates z (p + 3 * length dates))),
        (''Autres_Recettes'', fst (simulate_other_revenue self dates z (p + 4 * length dates))),
        (''Depenses_Totales'', fst (simulate_total_expenses self dates z (p + 5 * length dates))),
        (''Fonctionnement'', fst (simulate_operating_expenses self dates z (p + 6 * length dates))),
        (''Investissement'', fst (simulate_investment_expenses self dates z (p + 7 * length dates))),
        (''Charge_Dette'', fst (simulate_debt_charges self dates z (p + 8 * length dates))),
        (''Personnel'', fst (simulate_staff_costs self dates z (p + 9 * length dates))),
        (''Epargne_Brute'', fst (simulate_gross_savings self dates z (p + 10 * length dates))),
        (''Dette_Totale'', fst (simulate_total_debt self dates z (p + 11 * length dates))),
        (''Taux_Endettement'', fst (simulate_debt_ratio self dates z (p + 12 * length dates))),
        (''Taux_Fiscalite'', fst (simulate_tax_rate self dates z (p + 13 * length dates))),
        (''Investissement_Agriculture'', fst (simulate_agriculture_investment self dates z (p + 14 * length dates))),
        (''Investissement_Peche'', fst (simulate_fishing_investment self dates z (p + 15 * length dates))),
        (''Investissement_Transport'', fst (simulate_transport_investment self dates z (p + 16 * length dates))),
        (''Investissement_Education'', fst (simulate_education_investment self dates z (p + 17 * length dates))),
        (''Investissement_Sante'', fst (simulate_health_investment self dates z (p + 18 * length dates))),
        (''Investissement_Culture'', fst (simulate_culture_investment self dates z (p + 19 * length dates)))])"

text \<open>
  The value of a sector-investment metric that the trend alone implies, in the words of
  the specification: the base (a fraction of the budget base) times the linear growth
  \<open>1 + rate * i\<close> times the speciality multiplier, with the year multiplier and the noise
  both equal to one.
\<close>

definition sector_trend :: "analyzer \<Rightarrow> real \<Rightarrow> real \<Rightarrow> real \<Rightarrow> nat \<Rightarrow> real" where
  "sector_trend self fraction rate multiplier i =
     budget_base (config self) * fraction * (1 + rate * real i) * multiplier"

text \<open>
  Fixed inputs for the instances: a small table and two sequences of draws, one where
  every standard draw is 0 and one where every standard draw is -12, near the lower end of
  what the sampler returns.
\<close>

definition no_noise :: "nat \<Rightarrow> real" where
  "no_noise n = 0"

definition low_noise :: "nat \<Rightarrow> real" where
  "low_noise n = - 12"

definition sample_table :: dataframe where
  "sample_table =
     [(''Annee'', [2007, 2008, 2009]),
      (''Population'', [1260, 1272, 1284]),
      (''Recettes_Totales'', [100, 100, 100]),
      (''Dotations_Etat'', [50, 50, 50]),
      (''Autres_Recettes'', [10, 10, 10]),
      (''Investissement'', [20, 20, 20]),
      (''Investissement_Agriculture'', [5, 5, 5]),
      (''Investissement_Peche'', [4, 4, 4]),
      (''Investissement_Education'', [3, 3, 3]),
      (''Investissement_Sante'', [2, 2, 2])]"

section \<open>Properties\<close>

subsection \<open>Configuration resolver\<close>

lemma configs_default: "map_of configs ''default'' = Some default_config"
  by (simp add: configs_def)

lemma map_of_configs_None:
  "commune_name \<notin> set [''Mata-Utu'', ''Hahake'', ''Hihifo'', ''Mua'', ''Sigave'', ''Alo'', ''default'']
   \<Longrightarrow> map_of configs commune_name = None"
  by (simp add: configs_def)

text \<open>
  C4. A name that is not a key of the registry resolves to the default configuration:
  population base 2000, budget base 30, type district and the default specialities; this
  is also what the key \<open>default\<close> itself resolves to. The resolver is a total function, so
  it never fails.
\<close>

theorem C4_unknown_name_resolves_to_default:
  assumes "commune_name \<notin> set [''Mata-Utu'', ''Hahake'', ''Hihifo'', ''Mua'', ''Sigave'', ''Alo'', ''default'']"
  shows "get_commune_config commune_name =
           \<lparr>population_base = 2000, budget_base = 30, type_c = ''district'',
            specialites = [''agriculture'', ''peche'', ''artisanat'', ''services_locaux'']\<rparr>
         \<and> get_commune_config commune_name = get_commune_config ''default''"
  using map_of_configs_None [OF assms]
  by (simp add: get_commune_config_def configs_default default_config_def)

theorem C4_witness:
  "''Uvea'' \<notin> set [''Mata-Utu'', ''Hahake'', ''Hihifo'', ''Mua'', ''Sigave'', ''Alo'', ''default'']
   \<and> get_commune_config ''Uvea'' =
           \<lparr>population_base = 2000, budget_base = 30, type_c = ''district'',
            specialites = [''agriculture'', ''peche'', ''artisanat'', ''services_locaux'']\<rparr>
   \<and> get_commune_config ''Uvea'' = get_commune_config ''default''"
proof -
  have h: "''Uvea'' \<notin> set [''Mata-Utu'', ''Hahake'', ''Hihifo'', ''Mua'', ''Sigave'', ''Alo'', ''default'']"
    by simp
  show ?thesis using h C4_unknown_name_resolves_to_default [OF h] by (rule conjI)
qed

subsection \<open>The loops and the pass\<close>

lemma noisy_loop_eq:
  "noisy_loop z loc scale body k dates p =
     (map (\<lambda>j. body (k + j) (dates ! j) (loc + scale * z (p + j))) [0..<length dates],
      p + length dates)"
proof (induction dates arbitrary: k p)
  case Nil
  show ?case by simp
next
  case (Cons year dates)
  show ?case
    by (simp add: Cons.IH normal_def map_upt_Suc del: upt_Suc)
qed

lemma scaled_refl: "scaled i (\<lambda>c. 1) df df"
  by (simp add: scaled_def option.map_ident)

lemma map_of_map_keyed:
  "map_of (map (\<lambda>(k, xs). if k = c then (k, g xs) else (k, xs)) df) k =
     (if k = c then map_option g (map_of df k) else map_of df k)"
  by (induction df) auto

lemma loc_mul_scaled:
  assumes "scaled i s df d" and "map_of df c = Some xs" and "i < length xs"
  shows "\<exists>d'. loc_mul d i c f = Some d' \<and> scaled i (s(c := s c * f)) df d'"
proof -
  from assms have dc: "map_of d c = Some (xs[i := xs ! i * s c])"
    by (simp add: scaled_def)
  with assms(3) have lg: "loc_get d i c = Some (xs ! i * s c)"
    by (simp add: loc_get_def)
  let ?d' = "map (\<lambda>(k, ys). if k = c then (k, ys[i := xs ! i * s c * f]) else (k, ys)) d"
  have 1: "loc_mul d i c f = Some ?d'"
    by (simp add: loc_mul_def lg)
  have 2: "map fst ?d' = map fst df"
  proof -
    have "map fst ?d' = map fst d"
      by (induction d) auto
    with assms(1) show ?thesis by (simp add: scaled_def)
  qed
  have 3: "map (length \<circ> snd) ?d' = map (length \<circ> snd) df"
  proof -
    have "map (length \<circ> snd) ?d' = map (length \<circ> snd) d"
      by (induction d) auto
    with assms(1) show ?thesis by (simp add: scaled_def)
  qed
  have 4: "map_of ?d' k = map_option (\<lambda>xs. xs[i := xs ! i * (s(c := s c * f)) k]) (map_of df k)" for k
    using assms(1,2) dc by (simp add: map_of_map_keyed scaled_def mult.assoc)
  show ?thesis using 1 2 3 4 unfolding scaled_def by blast
qed

lemma loc_mul_step:
  assumes "scaled i s df d" and "has_col df n c" and "i < n"
  shows "\<exists>d'. loc_mul d i c f = Some d' \<and> scaled i (s(c := s c * f)) df d'"
proof -
  from assms(2) obtain xs where "map_of df c = Some xs" and "length xs = n"
    by (auto simp: has_col_def split: option.splits)
  with assms(1,3) show ?thesis
    by (intro loc_mul_scaled) auto
qed

lemma ready_cols:
  assumes "ready n df"
  shows "has_col df n ''Investissement_Agriculture''" "has_col df n ''Investissement_Peche''"
    "has_col df n ''Recettes_Totales''" "has_col df n ''Investissement''"
    "has_col df n ''Autres_Recettes''" "has_col df n ''Investissement_Education''"
    "has_col df n ''Investissement_Sante''" "has_col df n ''Dotations_Etat''"
  using assms by (simp_all add: ready_def pass_columns_def)

lemma chain2:
  assumes sc: "scaled i s df d" and a: "has_col df n a" and b: "has_col df n b"
    and i: "i < n" and ne: "a \<noteq> b"
  shows "\<exists>d'. loc_mul d i a fa \<bind> (\<lambda>df. loc_mul df i b fb) = Some d' \<and>
              scaled i (\<lambda>c. s c * (if c = a then fa else if c = b then fb else 1)) df d'"
proof -
  from loc_mul_step [OF sc a i]
  obtain d1 where 1: "loc_mul d i a fa = Some d1" and s1: "scaled i (s(a := s a * fa)) df d1"
    by blast
  from loc_mul_step [OF s1 b i]
  obtain d2 where 2: "loc_mul d1 i b fb = Some d2"
    and s2: "scaled i ((s(a := s a * fa))(b := (s(a := s a * fa)) b * fb)) df d2"
    by blast
  have "(s(a := s a * fa))(b := (s(a := s a * fa)) b * fb) =
          (\<lambda>c. s c * (if c = a then fa else if c = b then fb else 1))"
    using ne by (auto simp: fun_eq_iff)
  with s2 1 2 show ?thesis by simp
qed

lemma chain3:
  assumes sc: "scaled i s df d" and a: "has_col df n a" and b: "has_col df n b"
    and c: "has_col df n c" and i: "i < n" and ne: "a \<noteq> b" "a \<noteq> c" "b \<noteq> c"
  shows "\<exists>d'. loc_mul d i a fa \<bind> (\<lambda>df. loc_mul df i b fb \<bind> (\<lambda>df. loc_mul df i c fc)) = Some d' \<and>
              scaled i (\<lambda>k. s k * (if k = a then fa else if k = b then fb
                                     else if k = c then fc else 1)) df d'"
proof -
  from loc_mul_step [OF sc a i]
  obtain d1 where 1: "loc_mul d i a fa = Some d1" and s1: "scaled i (s(a := s a * fa)) df d1"
    by blast
  from chain2 [OF s1 b c i ne(3)]
  obtain d2 where 2: "loc_mul d1 i b fb \<bind> (\<lambda>df. loc_mul df i c fc) = Some d2"
    and s2: "scaled i (\<lambda>k. (s(a := s a * fa)) k * (if k = b then fb else if k = c then fc else 1)) df d2"
    by blast
  have "(\<lambda>k. (s(a := s a * fa)) k * (if k = b then fb else if k = c then fc else 1)) =
          (\<lambda>k. s k * (if k = a then fa else if k = b then fb else if k = c then fc else 1))"
    using ne by (auto simp: fun_eq_iff)
  with s2 1 2 show ?thesis by simp
qed

lemma scaled_unit: "scaled i s df d \<Longrightarrow> scaled i (\<lambda>c. s c * 1) df d"
  by simp

lemma developpement_initial_scaled:
  assumes sc: "scaled i s df d" and r: "ready n df" and i: "i < n"
  shows "\<exists>d'. developpement_initial year i d = Some d' \<and>
              scaled i (\<lambda>c. s c * factor_initial year c) df d'"
proof (cases "2002 \<le> year \<and> year \<le> 2005")
  case False
  show ?thesis using scaled_unit [OF sc]
    by (simp add: False developpement_initial_def factor_initial_def)
next
  case True
  show ?thesis using chain2 [OF sc ready_cols(1,2) [OF r] i, of "1.4" "1.3"]
    by (simp add: True developpement_initial_def factor_initial_def)
qed

lemma crise_financiere_scaled:
  assumes sc: "scaled i s df d" and r: "ready n df" and i: "i < n"
  shows "\<exists>d'. crise_financiere year i d = Some d' \<and>
              scaled i (\<lambda>c. s c * factor_crise year c) df d'"
proof -
  consider (crise) "2008 \<le> year \<and> year \<le> 2009"
    | (services) "\<not> (2008 \<le> year \<and> year \<le> 2009)" "2010 \<le> year \<and> year \<le> 2015"
    | (none) "\<not> (2008 \<le> year \<and> year \<le> 2009)" "\<not> (2010 \<le> year \<and> year \<le> 2015)"
    by blast
  then show ?thesis
  proof cases
    case crise
    show ?thesis using chain3 [OF sc ready_cols(3,4,5) [OF r] i, of "0.94" "0.85" "0.88"]
      by (simp add: crise crise_financiere_def factor_crise_def)
  next
    case services
    show ?thesis using chain2 [OF sc ready_cols(6,7) [OF r] i, of "1.3" "1.4"]
      by (simp add: services crise_financiere_def factor_crise_def)
  next
    case none
    show ?thesis using scaled_unit [OF sc]
      by (simp add: none crise_financiere_def factor_crise_def)
  qed
qed

lemma crise_covid_scaled:
  assumes sc: "scaled i s df d" and r: "ready n df" and i: "i < n"
  shows "\<exists>d'. crise_covid year i d = Some d' \<and>
              scaled i (\<lambda>c. s c * factor_covid year c) df d'"
proof (cases "year = 2020")
  case True
  show ?thesis using chain2 [OF sc ready_cols(5,8) [OF r] i, of "0.78" "1.15"]
    by (simp add: True crise_covid_def factor_covid_def)
next
  case False
  show ?thesis using scaled_unit [OF sc]
    by (simp add: False crise_covid_def factor_covid_def)
qed

lemma plan_relance_scaled:
  assumes sc: "scaled i s df d" and r: "ready n df" and i: "i < n"
  shows "\<exists>d'. plan_relance year i d = Some d' \<and>
              scaled i (\<lambda>c. s c * factor_relance year c) df d'"
proof (cases "year \<ge> 2022")
  case True
  show ?thesis using chain3 [OF sc ready_cols(4,1,2) [OF r] i, of "1.14" "1.12" "1.10"]
    by (simp add: True plan_relance_def factor_relance_def)
next
  case False
  show ?thesis using scaled_unit [OF sc]
    by (simp add: False plan_relance_def factor_relance_def)
qed

lemma trend_row_scaled:
  assumes r: "ready n df" and i: "i < n"
  shows "\<exists>d'. trend_row year i df = Some d' \<and> scaled i (trend_factor year) df d'"
proof -
  from developpement_initial_scaled [OF scaled_refl r i]
  obtain d1 where 1: "developpement_initial year i df = Some d1"
    and s1: "scaled i (\<lambda>c. 1 * factor_initial year c) df d1"
    by blast
  from crise_financiere_scaled [OF s1 r i]
  obtain d2 where 2: "crise_financiere year i d1 = Some d2"
    and s2: "scaled i (\<lambda>c. 1 * factor_initial year c * factor_crise year c) df d2"
    by blast
  from crise_covid_scaled [OF s2 r i]
  obtain d3 where 3: "crise_covid year i d2 = Some d3"
    and s3: "scaled i (\<lambda>c. 1 * factor_initial year c * factor_crise year c * factor_covid year c) df d3"
    by blast
  from plan_relance_scaled [OF s3 r i]
  obtain d4 where 4: "plan_relance year i d3 = Some d4"
    and s4: "scaled i (\<lambda>c. 1 * factor_initial year c * factor_crise year c * factor_covid year c
                          * factor_relance year c) df d4"
    by blast
  have "(\<lambda>c. 1 * factor_initial year c * factor_crise year c * factor_covid year c
                          * factor_relance year c) = trend_factor year"
    by (simp add: fun_eq_iff trend_factor_def)
  with s4 1 2 3 4 show ?thesis
    by (simp add: trend_row_def)
qed

lemma adjusted_empty: "adjusted {} ys df df"
  by (simp add: adjusted_def map_nth option.map_ident)

lemma adjusted_step:
  assumes a: "adjusted S ys df d" and s: "scaled i (trend_factor (ys ! i)) d d'" and i: "i \<notin> S"
  shows "adjusted (insert i S) ys df d'"
proof -
  have cell: "(map (\<lambda>j. if j \<in> S then xs ! j * trend_factor (ys ! j) c else xs ! j) [0..<length xs])
                [i := map (\<lambda>j. if j \<in> S then xs ! j * trend_factor (ys ! j) c else xs ! j)
                        [0..<length xs] ! i * trend_factor (ys ! i) c] =
              map (\<lambda>j. if j \<in> insert i S then xs ! j * trend_factor (ys ! j) c else xs ! j)
                [0..<length xs]" for xs :: "real list" and c
  proof (rule nth_equalityI)
    show "length ((map (\<lambda>j. if j \<in> S then xs ! j * trend_factor (ys ! j) c else xs ! j) [0..<length xs])
                [i := map (\<lambda>j. if j \<in> S then xs ! j * trend_factor (ys ! j) c else xs ! j)
                        [0..<length xs] ! i * trend_factor (ys ! i) c]) =
          length (map (\<lambda>j. if j \<in> insert i S then xs ! j * trend_factor (ys ! j) c else xs ! j)
                [0..<length xs])"
      by simp
  next
    fix j
    assume "j < length ((map (\<lambda>j. if j \<in> S then xs ! j * trend_factor (ys ! j) c else xs ! j) [0..<length xs])
                [i := map (\<lambda>j. if j \<in> S then xs ! j * trend_factor (ys ! j) c else xs ! j)
                        [0..<length xs] ! i * trend_factor (ys ! i) c])"
    then have j: "j < length xs" by simp
    show "(map (\<lambda>j. if j \<in> S then xs ! j * trend_factor (ys ! j) c else xs ! j) [0..<length xs])
                [i := map (\<lambda>j. if j \<in> S then xs ! j * trend_factor (ys ! j) c else xs ! j)
                        [0..<length xs] ! i * trend_factor (ys ! i) c] ! j =
          map (\<lambda>j. if j \<in> insert i S then xs ! j * trend_factor (ys ! j) c else xs ! j)
                [0..<length xs] ! j"
    proof (cases "j = i")
      case True
      with j i show ?thesis by simp
    next
      case False
      with j show ?thesis by simp
    qed
  qed
  have "map_of d' c =
          map_option (\<lambda>xs. map (\<lambda>j. if j \<in> insert i S then xs ! j * trend_factor (ys ! j) c else xs ! j)
                                 [0..<length xs]) (map_of df c)" for c
  proof (cases "map_of df c")
    case None
    with a s show ?thesis by (simp add: adjusted_def scaled_def)
  next
    case (Some xs)
    with a s show ?thesis by (simp add: adjusted_def scaled_def cell)
  qed
  moreover from a s have "map fst d' = map fst df" "map (length \<circ> snd) d' = map (length \<circ> snd) df"
    by (simp_all add: adjusted_def scaled_def)
  ultimately show ?thesis by (simp add: adjusted_def)
qed

lemma adjusted_has_col: "adjusted S ys df d \<Longrightarrow> has_col df n c \<Longrightarrow> has_col d n c"
  by (auto simp: adjusted_def has_col_def split: option.splits)

lemma adjusted_ready: "adjusted S ys df d \<Longrightarrow> ready n df \<Longrightarrow> ready n d"
  by (auto simp: ready_def list_all_iff intro: adjusted_has_col)

lemma iterrows_loop_adjusted:
  assumes y: "map_of rows ''Annee'' = Some ys" and r: "ready n df"
  shows "adjusted S ys df d \<Longrightarrow> distinct labels \<Longrightarrow> set labels \<inter> S = {} \<Longrightarrow>
         (\<forall>i \<in> set labels. i < n \<and> i < length ys) \<Longrightarrow>
         \<exists>d'. iterrows_loop rows labels d = Some d' \<and> adjusted (S \<union> set labels) ys df d'"
proof (induction labels arbitrary: S d)
  case Nil
  then show ?case by simp
next
  case (Cons i labels)
  from Cons.prems have i: "i < n" "i < length ys" "i \<notin> S" by auto
  from y i have year: "loc_get rows i ''Annee'' = Some (ys ! i)"
    by (simp add: loc_get_def)
  from trend_row_scaled [OF adjusted_ready [OF Cons.prems(1) r] i(1)]
  obtain d1 where 1: "trend_row (ys ! i) i d = Some d1"
    and s1: "scaled i (trend_factor (ys ! i)) d d1"
    by blast
  have a1: "adjusted (insert i S) ys df d1"
    by (rule adjusted_step [OF Cons.prems(1) s1 i(3)])
  from Cons.prems have "distinct labels" "set labels \<inter> insert i S = {}"
    "\<forall>j \<in> set labels. j < n \<and> j < length ys"
    by auto
  from Cons.IH [OF a1 this]
  obtain d' where "iterrows_loop rows labels d1 = Some d'"
    and "adjusted (insert i S \<union> set labels) ys df d'"
    by blast
  with year 1 show ?case by simp
qed

lemma rect_has_col:
  assumes "list_all (\<lambda>(c, xs). length xs = n) df" and "c \<in> fst ` set df"
  shows "has_col df n c"
proof -
  from assms(2) obtain xs where m: "map_of df c = Some xs"
    by (cases "map_of df c") (auto simp: map_of_eq_None_iff)
  then have "(c, xs) \<in> set df" by (rule map_of_SomeD)
  with assms(1) have "length xs = n" by (auto simp: list_all_iff)
  with m show ?thesis by (simp add: has_col_def)
qed

lemma add_municipal_trends_adjusted:
  assumes rect: "list_all (\<lambda>(c, xs). length xs = nrows df) df"
    and cols: "set trend_columns \<subseteq> fst ` set df"
  shows "\<exists>ys d'. map_of df ''Annee'' = Some ys \<and> length ys = nrows df \<and>
           add_municipal_trends df = Some d' \<and> adjusted {0..<nrows df} ys df d'"
proof -
  from cols have "has_col df (nrows df) ''Annee''"
    by (intro rect_has_col [OF rect]) (simp add: trend_columns_def)
  then obtain ys where y: "map_of df ''Annee'' = Some ys" and ly: "length ys = nrows df"
    by (auto simp: has_col_def split: option.splits)
  from cols have r: "ready (nrows df) df"
    by (auto simp: ready_def list_all_iff trend_columns_def intro!: rect_has_col [OF rect])
  from iterrows_loop_adjusted [OF y r adjusted_empty, of "[0..<nrows df]"] ly
  obtain d' where "iterrows_loop df [0..<nrows df] df = Some d'"
    and "adjusted ({} \<union> set [0..<nrows df]) ys df d'"
    by auto
  with y ly show ?thesis
    by (auto simp: add_municipal_trends_def)
qed

lemmas simulate_defs = simulate_total_revenue_def simulate_tax_revenue_def simulate_state_grants_def simulate_territorial_grants_def simulate_other_revenue_def simulate_total_expenses_def simulate_operating_expenses_def simulate_investment_expenses_def simulate_debt_charges_def simulate_staff_costs_def simulate_gross_savings_def simulate_total_debt_def simulate_debt_ratio_def simulate_tax_rate_def simulate_agriculture_investment_def simulate_fishing_investment_def simulate_transport_investment_def simulate_education_investment_def simulate_health_investment_def simulate_culture_investment_def

lemma simulate_snd:
  "snd (simulate_total_revenue self dates z p) = p + length dates"
  "snd (simulate_tax_revenue self dates z p) = p + length dates"
  "snd (simulate_state_grants self dates z p) = p + length dates"
  "snd (simulate_territorial_grants self dates z p) = p + length dates"
  "snd (simulate_other_revenue self dates z p) = p + length dates"
  "snd (simulate_total_expenses self dates z p) = p + length dates"
  "snd (simulate_operating_expenses self dates z p) = p + length dates"
  "snd (simulate_investment_expenses self dates z p) = p + length dates"
  "snd (simulate_debt_charges self dates z p) = p + length dates"
  "snd (simulate_staff_costs self dates z p) = p + length dates"
  "snd (simulate_gross_savings self dates z p) = p + length dates"
  "snd (simulate_total_debt self dates z p) = p + length dates"
  "snd (simulate_debt_ratio self dates z p) = p + length dates"
  "snd (simulate_tax_rate self dates z p) = p + length dates"
  "snd (simulate_agriculture_investment self dates z p) = p + length dates"
  "snd (simulate_fishing_investment self dates z p) = p + length dates"
  "snd (simulate_transport_investment self dates z p) = p + length dates"
  "snd (simulate_education_investment self dates z p) = p + length dates"
  "snd (simulate_health_investment self dates z p) = p + length dates"
  "snd (simulate_culture_investment self dates z p) = p + length dates"
  by (simp_all add: simulate_defs noisy_loop_eq)

lemma simulate_length:
  "length (fst (simulate_total_revenue self dates z p)) = length dates"
  "length (fst (simulate_tax_revenue self dates z p)) = length dates"
  "length (fst (simulate_state_grants self dates z p)) = length dates"
  "length (fst (simulate_territorial_grants self dates z p)) = length dates"
  "length (fst (simulate_other_revenue self dates z p)) = length dates"
  "length (fst (simulate_total_expenses self dates z p)) = length dates"
  "length (fst (simulate_operating_expenses self dates z p)) = length dates"
  "length (fst (simulate_investment_expenses self dates z p)) = length dates"
  "length (fst (simulate_debt_charges self dates z p)) = length dates"
  "length (fst (simulate_staff_costs self dates z p)) = length dates"
  "length (fst (simulate_gross_savings self dates z p)) = length dates"
  "length (fst (simulate_total_debt self dates z p)) = length dates"
  "length (fst (simulate_debt_ratio self dates z p)) = length dates"
  "length (fst (simulate_tax_rate self dates z p)) = length dates"
  "length (fst (simulate_agriculture_investment self dates z p)) = length dates"
  "length (fst (simulate_fishing_investment self dates z p)) = length dates"
  "length (fst (simulate_transport_investment self dates z p)) = length dates"
  "length (fst (simulate_education_investment self dates z p)) = length dates"
  "length (fst (simulate_health_investment self dates z p)) = length dates"
  "length (fst (simulate_culture_investment self dates z p)) = length dates"
  by (simp_all add: simulate_defs noisy_loop_eq)

lemma simulate_population_length: "length (simulate_population self dates) = length dates"
  by (simp add: simulate_population_def)

lemma simulate_households_length: "length (simulate_households self dates) = length dates"
  by (simp add: simulate_households_def)

lemma generate_financial_data_eq:
  "generate_financial_data self z p =
     (DataFrame (raw_table self z p) \<bind> add_municipal_trends,
      p + 20 * length (date_range (start_year self) (end_year self)))"
proof -
  have pos:
    "q + 0 * n = q"
    "q + 1 * n = q + n"
    "q + 2 * n = q + n + n"
    "q + 3 * n = q + n + n + n"
    "q + 4 * n = q + n + n + n + n"
    "q + 5 * n = q + n + n + n + n + n"
    "q + 6 * n = q + n + n + n + n + n + n"
    "q + 7 * n = q + n + n + n + n + n + n + n"
    "q + 8 * n = q + n + n + n + n + n + n + n + n"
    "q + 9 * n = q + n + n + n + n + n + n + n + n + n"
    "q + 10 * n = q + n + n + n + n + n + n + n + n + n + n"
    "q + 11 * n = q + n + n + n + n + n + n + n + n + n + n + n"
    "q + 12 * n = q + n + n + n + n + n + n + n + n + n + n + n + n"
    "q + 13 * n = q + n + n + n + n + n + n + n + n + n + n + n + n + n"
    "q + 14 * n = q + n + n + n + n + n + n + n + n + n + n + n + n + n + n"
    "q + 15 * n = q + n + n + n + n + n + n + n + n + n + n + n + n + n + n + n"
    "q + 16 * n = q + n + n + n + n + n + n + n + n + n + n + n + n + n + n + n + n"
    "q + 17 * n = q + n + n + n + n + n + n + n + n + n + n + n + n + n + n + n + n + n"
    "q + 18 * n = q + n + n + n + n + n + n + n + n + n + n + n + n + n + n + n + n + n + n"
    "q + 19 * n = q + n + n + n + n + n + n + n + n + n + n + n + n + n + n + n + n + n + n + n"
    "q + 20 * n = q + n + n + n + n + n + n + n + n + n + n + n + n + n + n + n + n + n + n + n + n"
    for q n :: nat
    by simp_all
  show ?thesis
    unfolding generate_financial_data_def raw_table_def Let_def case_prod_unfold simulate_snd pos
    by (rule refl)
qed

lemma adjusted_cell:
  assumes "adjusted S ys df d" and "i \<in> S"
  shows "loc_get d i c = map_option (\<lambda>v. v * trend_factor (ys ! i) c) (loc_get df i c)"
proof (cases "map_of df c")
  case None
  with assms(1) show ?thesis by (simp add: adjusted_def loc_get_def)
next
  case (Some xs)
  with assms show ?thesis by (simp add: adjusted_def loc_get_def)
qed

lemma adjusted_other_cell:
  assumes "adjusted S ys df d" and "i \<notin> S"
  shows "loc_get d i c = loc_get df i c"
proof (cases "map_of df c")
  case None
  with assms(1) show ?thesis by (simp add: adjusted_def loc_get_def)
next
  case (Some xs)
  with assms show ?thesis by (simp add: adjusted_def loc_get_def)
qed

lemma nrows_raw_table:
  "nrows (raw_table self z p) = length (date_range (start_year self) (end_year self))"
  by (simp add: raw_table_def nrows_def Let_def)

lemma raw_table_names:
  "map fst (raw_table self z p) =
     [''Annee'', ''Population'', ''Menages'', ''Recettes_Totales'', ''Impots_Locaux'',
      ''Dotations_Etat'', ''Dotations_Territoriales'', ''Autres_Recettes'', ''Depenses_Totales'',
      ''Fonctionnement'', ''Investissement'', ''Charge_Dette'', ''Personnel'', ''Epargne_Brute'',
      ''Dette_Totale'', ''Taux_Endettement'', ''Taux_Fiscalite'', ''Investissement_Agriculture'',
      ''Investissement_Peche'', ''Investissement_Transport'', ''Investissement_Education'',
      ''Investissement_Sante'', ''Investissement_Culture'']"
  by (simp add: raw_table_def Let_def)

lemma raw_table_lengths:
  "map (length \<circ> snd) (raw_table self z p) =
     replicate 23 (length (date_range (start_year self) (end_year self)))"
  by (simp add: raw_table_def Let_def simulate_length simulate_population_length
        simulate_households_length eval_nat_numeral)

lemma raw_table_rect:
  "list_all (\<lambda>(c, xs). length xs = nrows (raw_table self z p)) (raw_table self z p)"
proof -
  have "list_all (\<lambda>n. n = nrows (raw_table self z p)) (map (length \<circ> snd) (raw_table self z p))"
    unfolding raw_table_lengths nrows_raw_table by (simp add: list_all_iff)
  then show ?thesis
    by (simp add: list_all_iff case_prod_unfold)
qed

lemma DataFrame_raw_table: "DataFrame (raw_table self z p) = Some (raw_table self z p)"
  using raw_table_rect [of self z p] by (simp add: DataFrame_def)

lemma raw_table_columns: "set trend_columns \<subseteq> fst ` set (raw_table self z p)"
proof -
  have "set trend_columns \<subseteq> set (map fst (raw_table self z p))"
    unfolding raw_table_names by (simp add: trend_columns_def pass_columns_def)
  then show ?thesis by simp
qed

lemma raw_table_Annee:
  "map_of (raw_table self z p) ''Annee'' =
     Some (map real_of_int (date_range (start_year self) (end_year self)))"
  by (simp add: raw_table_def Let_def)

lemma generate_adjusted:
  "\<exists>df. fst (generate_financial_data self z p) = Some df \<and>
        adjusted {0..<length (date_range (start_year self) (end_year self))}
          (map real_of_int (date_range (start_year self) (end_year self)))
          (raw_table self z p) df"
  using add_municipal_trends_adjusted [OF raw_table_rect raw_table_columns, of self z p]
  by (auto simp: generate_financial_data_eq DataFrame_raw_table raw_table_Annee nrows_raw_table)

subsection \<open>The adjustment pass on a table\<close>

lemma DataFrame_rect:
  "DataFrame df = Some df \<Longrightarrow> list_all (\<lambda>(c, xs). length xs = nrows df) df"
  by (simp add: DataFrame_def split: if_splits)

lemma trend_columns_eq:
  "trend_columns =
     [''Annee'', ''Investissement_Agriculture'', ''Investissement_Peche'', ''Recettes_Totales'',
      ''Investissement'', ''Autres_Recettes'', ''Investissement_Education'',
      ''Investissement_Sante'', ''Dotations_Etat'']"
  by (simp add: trend_columns_def pass_columns_def)

lemma trend_factor_other: "c \<notin> set pass_columns \<Longrightarrow> trend_factor year c = 1"
  by (simp add: pass_columns_def trend_factor_def factor_initial_def factor_crise_def
        factor_covid_def factor_relance_def)

lemma adjusted_column:
  assumes "adjusted S ys df d" and "c \<notin> set pass_columns"
  shows "map_of d c = map_of df c"
proof (cases "map_of df c")
  case None
  with assms(1) show ?thesis by (simp add: adjusted_def)
next
  case (Some xs)
  with assms(1) show ?thesis
    by (simp add: adjusted_def trend_factor_other [OF assms(2)] map_nth cong: if_cong)
qed

lemma trend_factor_2007: "trend_factor 2007 c = 1"
  by (simp add: trend_factor_def factor_initial_def factor_crise_def factor_covid_def
        factor_relance_def)

lemma trend_factor_crisis:
  assumes "year = 2008 \<or> year = 2009"
  shows "trend_factor year ''Recettes_Totales'' = 0.94"
    "trend_factor year ''Investissement'' = 0.85"
    "trend_factor year ''Autres_Recettes'' = 0.88"
  using assms
  by (auto simp: trend_factor_def factor_initial_def factor_crise_def factor_covid_def
        factor_relance_def)

text \<open>
  C3. The pass runs on every rectangular table that has the columns it reads and writes.
  In a row whose year is 2007 every cell is left as it was, so none of the 2008-2009
  factors is applied; in a row whose year is 2008 or 2009 the total revenue is multiplied
  by 0.94, the investment expense by 0.85 and the other revenue by 0.88, once each.
\<close>

theorem C3_crisis_window:
  assumes "DataFrame df = Some df"
    and "set [''Annee'', ''Investissement_Agriculture'', ''Investissement_Peche'',
              ''Recettes_Totales'', ''Investissement'', ''Autres_Recettes'',
              ''Investissement_Education'', ''Investissement_Sante'', ''Dotations_Etat'']
         \<subseteq> set (map fst df)"
    and "i < nrows df"
  shows "\<exists>df'. add_municipal_trends df = Some df' \<and>
           (loc_get df i ''Annee'' = Some 2007 \<longrightarrow> (\<forall>c. loc_get df' i c = loc_get df i c)) \<and>
           (loc_get df i ''Annee'' = Some 2008 \<or> loc_get df i ''Annee'' = Some 2009 \<longrightarrow>
              loc_get df' i ''Recettes_Totales'' =
                map_option (\<lambda>v. v * 0.94) (loc_get df i ''Recettes_Totales'') \<and>
              loc_get df' i ''Investissement'' =
                map_option (\<lambda>v. v * 0.85) (loc_get df i ''Investissement'') \<and>
              loc_get df' i ''Autres_Recettes'' =
                map_option (\<lambda>v. v * 0.88) (loc_get df i ''Autres_Recettes''))"
proof -
  from assms(2) have cols: "set trend_columns \<subseteq> fst ` set df"
    unfolding trend_columns_eq by simp
  from add_municipal_trends_adjusted [OF DataFrame_rect [OF assms(1)] cols]
  obtain ys df' where y: "map_of df ''Annee'' = Some ys" and ly: "length ys = nrows df"
    and run: "add_municipal_trends df = Some df'"
    and adj: "adjusted {0..<nrows df} ys df df'"
    by blast
  from assms(3) have i: "i \<in> {0..<nrows df}" by simp
  from y ly assms(3) have year: "loc_get df i ''Annee'' = Some (ys ! i)"
    by (simp add: loc_get_def)
  have cell: "loc_get df' i c = map_option (\<lambda>v. v * trend_factor (ys ! i) c) (loc_get df i c)" for c
    by (rule adjusted_cell [OF adj i])
  have "\<forall>c. loc_get df' i c = loc_get df i c" if "ys ! i = 2007"
    using that by (simp add: cell trend_factor_2007 option.map_ident)
  moreover have "loc_get df' i ''Recettes_Totales'' =
                map_option (\<lambda>v. v * 0.94) (loc_get df i ''Recettes_Totales'') \<and>
              loc_get df' i ''Investissement'' =
                map_option (\<lambda>v. v * 0.85) (loc_get df i ''Investissement'') \<and>
              loc_get df' i ''Autres_Recettes'' =
                map_option (\<lambda>v. v * 0.88) (loc_get df i ''Autres_Recettes'')"
    if "ys ! i = 2008 \<or> ys ! i = 2009"
    by (simp add: cell trend_factor_crisis [OF that])
  ultimately show ?thesis
    using run year by simp
qed

text \<open>
  C8. The pass writes to eight columns only. Every column with another name, among them
  \<open>Annee\<close>, \<open>Population\<close>, \<open>Menages\<close>, \<open>Impots_Locaux\<close>, \<open>Dotations_Territoriales\<close>,
  \<open>Depenses_Totales\<close>, \<open>Fonctionnement\<close>, \<open>Charge_Dette\<close>, \<open>Personnel\<close>,
  \<open>Epargne_Brute\<close>, \<open>Dette_Totale\<close>, \<open>Taux_Endettement\<close>, \<open>Taux_Fiscalite\<close>,
  \<open>Investissement_Transport\<close> and \<open>Investissement_Culture\<close>, holds after the pass the
  list of values it held before, and the column names are the same.
\<close>

theorem C8_other_columns_unchanged:
  assumes "DataFrame df = Some df"
    and "set [''Annee'', ''Investissement_Agriculture'', ''Investissement_Peche'',
              ''Recettes_Totales'', ''Investissement'', ''Autres_Recettes'',
              ''Investissement_Education'', ''Investissement_Sante'', ''Dotations_Etat'']
         \<subseteq> set (map fst df)"
    and "c \<notin> set [''Investissement_Agriculture'', ''Investissement_Peche'', ''Recettes_Totales'',
                  ''Investissement'', ''Autres_Recettes'', ''Investissement_Education'',
                  ''Investissement_Sante'', ''Dotations_Etat'']"
  shows "\<exists>df'. add_municipal_trends df = Some df' \<and> map fst df' = map fst df \<and>
           map_of df' c = map_of df c"
proof -
  from assms(2) have cols: "set trend_columns \<subseteq> fst ` set df"
    unfolding trend_columns_eq by simp
  from add_municipal_trends_adjusted [OF DataFrame_rect [OF assms(1)] cols]
  obtain ys df' where run: "add_municipal_trends df = Some df'"
    and adj: "adjusted {0..<nrows df} ys df df'"
    by blast
  from assms(3) have "c \<notin> set pass_columns"
    by (simp add: pass_columns_def)
  from adjusted_column [OF adj this] adj run show ?thesis
    by (simp add: adjusted_def)
qed

lemma sample_table_ok: "DataFrame sample_table = Some sample_table"
  by (simp add: DataFrame_def sample_table_def nrows_def)

lemma sample_table_columns:
  "set [''Annee'', ''Investissement_Agriculture'', ''Investissement_Peche'',
              ''Recettes_Totales'', ''Investissement'', ''Autres_Recettes'',
              ''Investissement_Education'', ''Investissement_Sante'', ''Dotations_Etat'']
         \<subseteq> set (map fst sample_table)"
  by (simp add: sample_table_def)

text \<open>
  The instance of C3 on the sample table: row 0 is the year 2007, row 1 the year 2008.
\<close>

theorem C3_witness:
  "DataFrame sample_table = Some sample_table \<and> 0 < nrows sample_table \<and> 1 < nrows sample_table \<and>
   (\<exists>df'. add_municipal_trends sample_table = Some df' \<and>
      loc_get df' 0 ''Recettes_Totales'' = Some 100 \<and>
      loc_get df' 0 ''Investissement'' = Some 20 \<and>
      loc_get df' 0 ''Autres_Recettes'' = Some 10 \<and>
      loc_get df' 1 ''Recettes_Totales'' = Some 94 \<and>
      loc_get df' 1 ''Investissement'' = Some 17 \<and>
      loc_get df' 1 ''Autres_Recettes'' = Some 8.8)"
proof -
  have n: "0 < nrows sample_table" "1 < nrows sample_table"
    by (simp_all add: sample_table_def nrows_def)
  have get: "loc_get sample_table 0 ''Annee'' = Some 2007"
    "loc_get sample_table 1 ''Annee'' = Some 2008"
    "loc_get sample_table 0 ''Recettes_Totales'' = Some 100"
    "loc_get sample_table 0 ''Investissement'' = Some 20"
    "loc_get sample_table 0 ''Autres_Recettes'' = Some 10"
    "loc_get sample_table 1 ''Recettes_Totales'' = Some 100"
    "loc_get sample_table 1 ''Investissement'' = Some 20"
    "loc_get sample_table 1 ''Autres_Recettes'' = Some 10"
    by (simp_all add: sample_table_def loc_get_def)
  from C3_crisis_window [OF sample_table_ok sample_table_columns n(1)]
  obtain d where run: "add_municipal_trends sample_table = Some d"
    and a: "loc_get sample_table 0 ''Annee'' = Some 2007 \<longrightarrow>
              (\<forall>c. loc_get d 0 c = loc_get sample_table 0 c)"
    by blast
  from C3_crisis_window [OF sample_table_ok sample_table_columns n(2)]
  obtain d' where run': "add_municipal_trends sample_table = Some d'"
    and b: "loc_get sample_table 1 ''Annee'' = Some 2008 \<or>
            loc_get sample_table 1 ''Annee'' = Some 2009 \<longrightarrow>
              loc_get d' 1 ''Recettes_Totales'' =
                map_option (\<lambda>v. v * 0.94) (loc_get sample_table 1 ''Recettes_Totales'') \<and>
              loc_get d' 1 ''Investissement'' =
                map_option (\<lambda>v. v * 0.85) (loc_get sample_table 1 ''Investissement'') \<and>
              loc_get d' 1 ''Autres_Recettes'' =
                map_option (\<lambda>v. v * 0.88) (loc_get sample_table 1 ''Autres_Recettes'')"
    by blast
  from run run' have same: "d' = d" by simp
  from a have a': "loc_get d 0 c = loc_get sample_table 0 c" for c
    unfolding get by simp
  from b have b': "loc_get d 1 ''Recettes_Totales'' = Some 94"
    "loc_get d 1 ''Investissement'' = Some 17"
    "loc_get d 1 ''Autres_Recettes'' = Some 8.8"
    unfolding get same by simp_all
  have "loc_get d 0 ''Recettes_Totales'' = Some 100"
    "loc_get d 0 ''Investissement'' = Some 20"
    "loc_get d 0 ''Autres_Recettes'' = Some 10"
    unfolding a' get by simp_all
  with b' run sample_table_ok n show ?thesis
    by blast
qed

text \<open>
  The instance of C8 on the sample table, for the column \<open>Population\<close>.
\<close>

theorem C8_witness:
  "DataFrame sample_table = Some sample_table \<and>
   (\<exists>df'. add_municipal_trends sample_table = Some df' \<and>
      map_of df' ''Population'' = Some [1260, 1272, 1284])"
proof -
  have c: "''Population'' \<notin> set [''Investissement_Agriculture'', ''Investissement_Peche'', ''Recettes_Totales'',
                  ''Investissement'', ''Autres_Recettes'', ''Investissement_Education'',
                  ''Investissement_Sante'', ''Dotations_Etat'']"
    by simp
  have "map_of sample_table ''Population'' = Some [1260, 1272, 1284]"
    by (simp add: sample_table_def)
  with C8_other_columns_unchanged [OF sample_table_ok sample_table_columns c]
  show ?thesis
    using sample_table_ok by auto
qed

subsection \<open>Series generators\<close>

lemma noisy_loop_nth:
  "i < length dates \<Longrightarrow>
   fst (noisy_loop z loc scale body k dates p) ! i =
     body (k + i) (dates ! i) (loc + scale * z (p + i))"
  by (simp add: noisy_loop_eq)

lemma date_range_length: "length (date_range s e) = nat (e - s + 1)"
  by (simp add: date_range_def)

lemma date_range_nth: "i < nat (e - s + 1) \<Longrightarrow> date_range s e ! i = s + int i"
  by (simp add: date_range_def)

text \<open>
  C6. The debt ratio and the tax rate start from the constants 0.70 and 0.80, whatever the
  configuration is. The value at index \<open>i\<close> is the constant times a trend factor times the
  noise draw: the trend factor is 1 for every year before 2010, and from 2010 on it is
  \<open>1 - 0.01 * (year - 2010)\<close> for the debt ratio and \<open>1 + 0.004 * (year - 2010)\<close> for the
  tax rate.
\<close>

theorem C6_ratio_metrics:
  assumes "i < length dates"
  shows "fst (simulate_debt_ratio self dates z p) ! i =
           0.70 * (if dates ! i < 2010 then 1 else 1 - 0.01 * real_of_int (dates ! i - 2010))
             * (1 + 0.07 * z (p + i))
         \<and> fst (simulate_tax_rate self dates z p) ! i =
           0.80 * (if dates ! i < 2010 then 1 else 1 + 0.004 * real_of_int (dates ! i - 2010))
             * (1 + 0.04 * z (p + i))"
  using assms
  by (simp add: simulate_debt_ratio_def simulate_tax_rate_def noisy_loop_nth Let_def)

text \<open>
  The instance of C6 at index 10 of the range 2002-2025, the year 2012, without noise.
\<close>

theorem C6_witness:
  "(10::nat) < length (date_range 2002 2025)
   \<and> fst (simulate_debt_ratio (init ''Hahake'') (date_range 2002 2025) no_noise 0) ! 10 = 0.686
   \<and> fst (simulate_tax_rate (init ''Hahake'') (date_range 2002 2025) no_noise 0) ! 10 = 0.8064"
proof -
  have h: "(10::nat) < length (date_range 2002 2025)"
    by (simp add: date_range_length)
  have y: "date_range 2002 2025 ! 10 = 2012"
    by (simp add: date_range_nth)
  from C6_ratio_metrics [OF h, of "init ''Hahake''" no_noise 0] h show ?thesis
    unfolding y by (simp add: no_noise_def)
qed

text \<open>
  C10. The total debt at index \<open>i\<close> is \<open>budget_base * 0.75\<close> times the change factor of the
  year times the noise draw; the index does not occur. In a year outside the two lists the
  value before noise is the constant \<open>budget_base * 0.75\<close>.
\<close>

theorem C10_total_debt_has_no_trend:
  assumes "i < length dates"
  shows "fst (simulate_total_debt self dates z p) ! i =
           budget_base (config self) * 0.75
             * (if dates ! i \<in> set [2006, 2012, 2018, 2023] then 1.25
                else if dates ! i \<in> set [2009, 2015, 2021] then 0.92 else 1)
             * (1 + 0.09 * z (p + i))
         \<and> (dates ! i \<notin> set [2006, 2012, 2018, 2023] \<and> dates ! i \<notin> set [2009, 2015, 2021] \<longrightarrow>
              fst (simulate_total_debt self dates z p) ! i =
                budget_base (config self) * 0.75 * (1 + 0.09 * z (p + i)))"
  using assms
  by (simp add: simulate_total_debt_def noisy_loop_nth Let_def)

text \<open>
  The instance of C10 at index 20 of the range 2002-2025, the year 2022, without noise.
\<close>

theorem C10_witness:
  "(20::nat) < length (date_range 2002 2025)
   \<and> fst (simulate_total_debt (init ''Mata-Utu'') (date_range 2002 2025) no_noise 0) ! 20 = 26.25
   \<and> fst (simulate_total_debt (init ''Mata-Utu'') (date_range 2002 2025) no_noise 0) ! 20 =
       budget_base (config (init ''Mata-Utu'')) * 0.75"
proof -
  have h: "(20::nat) < length (date_range 2002 2025)"
    by (simp add: date_range_length)
  have y: "date_range 2002 2025 ! 20 = 2022"
    by (simp add: date_range_nth)
  have b: "budget_base (config (init ''Mata-Utu'')) = 35"
    by (simp add: init_def get_commune_config_def configs_def)
  from C10_total_debt_has_no_trend [OF h, of "init ''Mata-Utu''" no_noise 0] h show ?thesis
    unfolding y b by (simp add: no_noise_def)
qed

subsection \<open>Investment cycles\<close>

lemma sector_trend_pos:
  assumes "0 < budget_base (config self)" and "0 < fraction" and "0 \<le> rate" and "0 < multiplier"
  shows "0 < sector_trend self fraction rate multiplier i"
proof -
  from assms(3) have "0 < 1 + rate * real i"
    by (simp add: add_pos_nonneg)
  with assms(1,2,4) show ?thesis
    by (simp add: sector_trend_def)
qed

lemma cycle_greater: "0 < t \<Longrightarrow> 1 < m \<Longrightarrow> t < m * t" for t m :: real
  by simp

lemma agriculture_investment_cycle:
  assumes "i < length dates"
  shows "fst (simulate_agriculture_investment self dates no_noise p) ! i =
           (if dates ! i \<in> set [2005, 2010, 2015, 2020] then 1.8 else 1) * sector_trend self 0.07 0.026 (if ''agriculture'' \<in> set (specialites (config self)) then 1.5 else 0.8) i"
  using assms
  by (simp add: simulate_agriculture_investment_def noisy_loop_nth Let_def no_noise_def sector_trend_def)

lemma agriculture_investment_greater:
  assumes "i < length dates" and "0 < budget_base (config self)" and "dates ! i \<in> set [2005, 2010, 2015, 2020]"
  shows "sector_trend self 0.07 0.026 (if ''agriculture'' \<in> set (specialites (config self)) then 1.5 else 0.8) i < fst (simulate_agriculture_investment self dates no_noise p) ! i"
proof -
  have "0 < sector_trend self 0.07 0.026 (if ''agriculture'' \<in> set (specialites (config self)) then 1.5 else 0.8) i"
    using assms(2) by (intro sector_trend_pos) simp_all
  then have "sector_trend self 0.07 0.026 (if ''agriculture'' \<in> set (specialites (config self)) then 1.5 else 0.8) i < 1.8 * sector_trend self 0.07 0.026 (if ''agriculture'' \<in> set (specialites (config self)) then 1.5 else 0.8) i"
    by (intro cycle_greater) simp_all
  with assms(3) show ?thesis
    unfolding agriculture_investment_cycle [OF assms(1)] by (simp only: if_True)
qed

lemma fishing_investment_cycle:
  assumes "i < length dates"
  shows "fst (simulate_fishing_investment self dates no_noise p) ! i =
           (if dates ! i \<in> set [2007, 2013, 2019, 2024] then 1.7 else 1) * sector_trend self 0.06 0.028 (if ''peche'' \<in> set (specialites (config self)) then 1.6 else 0.7) i"
  using assms
  by (simp add: simulate_fishing_investment_def noisy_loop_nth Let_def no_noise_def sector_trend_def)

lemma fishing_investment_greater:
  assumes "i < length dates" and "0 < budget_base (config self)" and "dates ! i \<in> set [2007, 2013, 2019, 2024]"
  shows "sector_trend self 0.06 0.028 (if ''peche'' \<in> set (specialites (config self)) then 1.6 else 0.7) i < fst (simulate_fishing_investment self dates no_noise p) ! i"
proof -
  have "0 < sector_trend self 0.06 0.028 (if ''peche'' \<in> set (specialites (config self)) then 1.6 else 0.7) i"
    using assms(2) by (intro sector_trend_pos) simp_all
  then have "sector_trend self 0.06 0.028 (if ''peche'' \<in> set (specialites (config self)) then 1.6 else 0.7) i < 1.7 * sector_trend self 0.06 0.028 (if ''peche'' \<in> set (specialites (config self)) then 1.6 else 0.7) i"
    by (intro cycle_greater) simp_all
  with assms(3) show ?thesis
    unfolding fishing_investment_cycle [OF assms(1)] by (simp only: if_True)
qed

lemma transport_investment_cycle:
  assumes "i < length dates"
  shows "fst (simulate_transport_investment self dates no_noise p) ! i =
           (if dates ! i \<in> set [2006, 2012, 2018, 2023] then 1.6 else 1) * sector_trend self 0.05 0.024 (if ''transport'' \<in> set (specialites (config self)) then 1.4 else 0.9) i"
  using assms
  by (simp add: simulate_transport_investment_def noisy_loop_nth Let_def no_noise_def sector_trend_def)

lemma transport_investment_greater:
  assumes "i < length dates" and "0 < budget_base (config self)" and "dates ! i \<in> set [2006, 2012, 2018, 2023]"
  shows "sector_trend self 0.05 0.024 (if ''transport'' \<in> set (specialites (config self)) then 1.4 else 0.9) i < fst (simulate_transport_investment self dates no_noise p) ! i"
proof -
  have "0 < sector_trend self 0.05 0.024 (if ''transport'' \<in> set (specialites (config self)) then 1.4 else 0.9) i"
    using assms(2) by (intro sector_trend_pos) simp_all
  then have "sector_trend self 0.05 0.024 (if ''transport'' \<in> set (specialites (config self)) then 1.4 else 0.9) i < 1.6 * sector_trend self 0.05 0.024 (if ''transport'' \<in> set (specialites (config self)) then 1.4 else 0.9) i"
    by (intro cycle_greater) simp_all
  with assms(3) show ?thesis
    unfolding transport_investment_cycle [OF assms(1)] by (simp only: if_True)
qed

lemma education_investment_cycle:
  assumes "i < length dates"
  shows "fst (simulate_education_investment self dates no_noise p) ! i =
           (if dates ! i \<in> set [2008, 2014, 2020] then 1.6 else 1) * sector_trend self 0.06 0.027 (if ''education'' \<in> set (specialites (config self)) then 1.4 else 0.9) i"
  using assms
  by (simp add: simulate_education_investment_def noisy_loop_nth Let_def no_noise_def sector_trend_def)

lemma education_investment_greater:
  assumes "i < length dates" and "0 < budget_base (config self)" and "dates ! i \<in> set [2008, 2014, 2020]"
  shows "sector_trend self 0.06 0.027 (if ''education'' \<in> set (specialites (config self)) then 1.4 else 0.9) i < fst (simulate_education_investment self dates no_noise p) ! i"
proof -
  have "0 < sector_trend self 0.06 0.027 (if ''education'' \<in> set (specialites (config self)) then 1.4 else 0.9) i"
    using assms(2) by (intro sector_trend_pos) simp_all
  then have "sector_trend self 0.06 0.027 (if ''education'' \<in> set (specialites (config self)) then 1.4 else 0.9) i < 1.6 * sector_trend self 0.06 0.027 (if ''education'' \<in> set (specialites (config self)) then 1.4 else 0.9) i"
    by (intro cycle_greater) simp_all
  with assms(3) show ?thesis
    unfolding education_investment_cycle [OF assms(1)] by (simp only: if_True)
qed

lemma health_investment_cycle:
  assumes "i < length dates"
  shows "fst (simulate_health_investment self dates no_noise p) ! i =
           (if dates ! i \<in> set [2009, 2015, 2021] then 1.7 else 1) * sector_trend self 0.05 0.025 (if ''sante'' \<in> set (specialites (config self)) then 1.5 else 0.9) i"
  using assms
  by (simp add: simulate_health_investment_def noisy_loop_nth Let_def no_noise_def sector_trend_def)

lemma health_investment_greater:
  assumes "i < length dates" and "0 < budget_base (config self)" and "dates ! i \<in> set [2009, 2015, 2021]"
  shows "sector_trend self 0.05 0.025 (if ''sante'' \<in> set (specialites (config self)) then 1.5 else 0.9) i < fst (simulate_health_investment self dates no_noise p) ! i"
proof -
  have "0 < sector_trend self 0.05 0.025 (if ''sante'' \<in> set (specialites (config self)) then 1.5 else 0.9) i"
    using assms(2) by (intro sector_trend_pos) simp_all
  then have "sector_trend self 0.05 0.025 (if ''sante'' \<in> set (specialites (config self)) then 1.5 else 0.9) i < 1.7 * sector_trend self 0.05 0.025 (if ''sante'' \<in> set (specialites (config self)) then 1.5 else 0.9) i"
    by (intro cycle_greater) simp_all
  with assms(3) show ?thesis
    unfolding health_investment_cycle [OF assms(1)] by (simp only: if_True)
qed

lemma culture_investment_cycle:
  assumes "i < length dates"
  shows "fst (simulate_culture_investment self dates no_noise p) ! i =
           (if dates ! i \<in> set [2010, 2016, 2022] then 1.7 else 1) * sector_trend self 0.04 0.023 (if ''culture'' \<in> set (specialites (config self)) then 1.6 else 0.7) i"
  using assms
  by (simp add: simulate_culture_investment_def noisy_loop_nth Let_def no_noise_def sector_trend_def)

lemma culture_investment_greater:
  assumes "i < length dates" and "0 < budget_base (config self)" and "dates ! i \<in> set [2010, 2016, 2022]"
  shows "sector_trend self 0.04 0.023 (if ''culture'' \<in> set (specialites (config self)) then 1.6 else 0.7) i < fst (simulate_culture_investment self dates no_noise p) ! i"
proof -
  have "0 < sector_trend self 0.04 0.023 (if ''culture'' \<in> set (specialites (config self)) then 1.6 else 0.7) i"
    using assms(2) by (intro sector_trend_pos) simp_all
  then have "sector_trend self 0.04 0.023 (if ''culture'' \<in> set (specialites (config self)) then 1.6 else 0.7) i < 1.7 * sector_trend self 0.04 0.023 (if ''culture'' \<in> set (specialites (config self)) then 1.6 else 0.7) i"
    by (intro cycle_greater) simp_all
  with assms(3) show ?thesis
    unfolding culture_investment_cycle [OF assms(1)] by (simp only: if_True)
qed

text \<open>
  C7. With every noise draw equal to one, each of the six sector-investment generators
  returns at index \<open>i\<close> the year multiplier times the value the trend alone implies at
  that index. The year multiplier is the documented constant in a cycle year of the
  metric (1.8 for agriculture, 1.7 for fishing, health and culture, 1.6 for transport and
  education) and 1 in every other year. For a positive budget base the value in a cycle
  year is therefore strictly greater than the trend-only value. The statement is about
  the series as the generators return them, before the adjustment pass.
\<close>

theorem C7_cycle_years:
  assumes "i < length dates"
  shows
    "fst (simulate_agriculture_investment self dates no_noise p) ! i =
       (if dates ! i \<in> set [2005, 2010, 2015, 2020] then 1.8 else 1) * sector_trend self 0.07 0.026 (if ''agriculture'' \<in> set (specialites (config self)) then 1.5 else 0.8) i \<and>
     fst (simulate_fishing_investment self dates no_noise p) ! i =
       (if dates ! i \<in> set [2007, 2013, 2019, 2024] then 1.7 else 1) * sector_trend self 0.06 0.028 (if ''peche'' \<in> set (specialites (config self)) then 1.6 else 0.7) i \<and>
     fst (simulate_transport_investment self dates no_noise p) ! i =
       (if dates ! i \<in> set [2006, 2012, 2018, 2023] then 1.6 else 1) * sector_trend self 0.05 0.024 (if ''transport'' \<in> set (specialites (config self)) then 1.4 else 0.9) i \<and>
     fst (simulate_education_investment self dates no_noise p) ! i =
       (if dates ! i \<in> set [2008, 2014, 2020] then 1.6 else 1) * sector_trend self 0.06 0.027 (if ''education'' \<in> set (specialites (config self)) then 1.4 else 0.9) i \<and>
     fst (simulate_health_investment self dates no_noise p) ! i =
       (if dates ! i \<in> set [2009, 2015, 2021] then 1.7 else 1) * sector_trend self 0.05 0.025 (if ''sante'' \<in> set (specialites (config self)) then 1.5 else 0.9) i \<and>
     fst (simulate_culture_investment self dates no_noise p) ! i =
       (if dates ! i \<in> set [2010, 2016, 2022] then 1.7 else 1) * sector_trend self 0.04 0.023 (if ''culture'' \<in> set (specialites (config self)) then 1.6 else 0.7) i \<and>
     (0 < budget_base (config self) \<longrightarrow>
        (dates ! i \<in> set [2005, 2010, 2015, 2020] \<longrightarrow>
           sector_trend self 0.07 0.026 (if ''agriculture'' \<in> set (specialites (config self)) then 1.5 else 0.8) i < fst (simulate_agriculture_investment self dates no_noise p) ! i) \<and>
        (dates ! i \<in> set [2007, 2013, 2019, 2024] \<longrightarrow>
           sector_trend self 0.06 0.028 (if ''peche'' \<in> set (specialites (config self)) then 1.6 else 0.7) i < fst (simulate_fishing_investment self dates no_noise p) ! i) \<and>
        (dates ! i \<in> set [2006, 2012, 2018, 2023] \<longrightarrow>
           sector_trend self 0.05 0.024 (if ''transport'' \<in> set (specialites (config self)) then 1.4 else 0.9) i < fst (simulate_transport_investment self dates no_noise p) ! i) \<and>
        (dates ! i \<in> set [2008, 2014, 2020] \<longrightarrow>
           sector_trend self 0.06 0.027 (if ''education'' \<in> set (specialites (config self)) then 1.4 else 0.9) i < fst (simulate_education_investment self dates no_noise p) ! i) \<and>
        (dates ! i \<in> set [2009, 2015, 2021] \<longrightarrow>
           sector_trend self 0.05 0.025 (if ''sante'' \<in> set (specialites (config self)) then 1.5 else 0.9) i < fst (simulate_health_investment self dates no_noise p) ! i) \<and>
        (dates ! i \<in> set [2010, 2016, 2022] \<longrightarrow>
           sector_trend self 0.04 0.023 (if ''culture'' \<in> set (specialites (config self)) then 1.6 else 0.7) i < fst (simulate_culture_investment self dates no_noise p) ! i))"
  using agriculture_investment_cycle [OF assms, of self p] fishing_investment_cycle [OF assms, of self p] transport_investment_cycle [OF assms, of self p] education_investment_cycle [OF assms, of self p] health_investment_cycle [OF assms, of self p] culture_investment_cycle [OF assms, of self p]
    agriculture_investment_greater [OF assms, of self p] fishing_investment_greater [OF assms, of self p] transport_investment_greater [OF assms, of self p] education_investment_greater [OF assms, of self p] health_investment_greater [OF assms, of self p] culture_investment_greater [OF assms, of self p]
  by blast

text \<open>
  The instance of C7 for Hihifo at index 5 of the range 2002-2025: 2007 is a cycle year of
  fishing and not one of agriculture.
\<close>

theorem C7_witness:
  "(5::nat) < length (date_range 2002 2025)
   \<and> 0 < budget_base (config (init ''Hihifo''))
   \<and> date_range 2002 2025 ! 5 = 2007
   \<and> fst (simulate_fishing_investment (init ''Hihifo'') (date_range 2002 2025) no_noise 0) ! 5 =
       1.7 * sector_trend (init ''Hihifo'') 0.06 0.028 1.6 5
   \<and> sector_trend (init ''Hihifo'') 0.06 0.028 1.6 5 <
       fst (simulate_fishing_investment (init ''Hihifo'') (date_range 2002 2025) no_noise 0) ! 5
   \<and> fst (simulate_agriculture_investment (init ''Hihifo'') (date_range 2002 2025) no_noise 0) ! 5 =
       sector_trend (init ''Hihifo'') 0.07 0.026 1.5 5"
proof -
  have h: "(5::nat) < length (date_range 2002 2025)"
    by (simp add: date_range_length)
  have y: "date_range 2002 2025 ! 5 = 2007"
    by (simp add: date_range_nth)
  have c: "config (init ''Hihifo'') =
             \<lparr>population_base = 1800, budget_base = 28, type_c = ''district'',
              specialites = [''peche'', ''agriculture'', ''tourisme'', ''patrimoine'']\<rparr>"
    by (simp add: init_def get_commune_config_def configs_def)
  from C7_cycle_years [OF h, of "init ''Hihifo''" 0] h y show ?thesis
    unfolding y c by simp
qed

subsection \<open>Shape of the generated table\<close>

lemma nrows_of_lengths: "map (length \<circ> snd) df = n # ns \<Longrightarrow> nrows df = n"
  by (cases df) (auto simp: nrows_def)

lemma generate_shape:
  "\<exists>df. fst (generate_financial_data self z p) = Some df \<and>
        nrows df = nat (end_year self - start_year self + 1) \<and>
        map fst df =
          [''Annee'', ''Population'', ''Menages'', ''Recettes_Totales'', ''Impots_Locaux'',
           ''Dotations_Etat'', ''Dotations_Territoriales'', ''Autres_Recettes'',
           ''Depenses_Totales'', ''Fonctionnement'', ''Investissement'', ''Charge_Dette'',
           ''Personnel'', ''Epargne_Brute'', ''Dette_Totale'', ''Taux_Endettement'',
           ''Taux_Fiscalite'', ''Investissement_Agriculture'', ''Investissement_Peche'',
           ''Investissement_Transport'', ''Investissement_Education'', ''Investissement_Sante'',
           ''Investissement_Culture''] \<and>
        map (length \<circ> snd) df = replicate 23 (nat (end_year self - start_year self + 1))"
proof -
  from generate_adjusted [of self z p]
  obtain df where run: "fst (generate_financial_data self z p) = Some df"
    and adj: "adjusted {0..<length (date_range (start_year self) (end_year self))}
          (map real_of_int (date_range (start_year self) (end_year self)))
          (raw_table self z p) df"
    by blast
  from adj have names: "map fst df = map fst (raw_table self z p)"
    and lens: "map (length \<circ> snd) df = map (length \<circ> snd) (raw_table self z p)"
    by (simp_all add: adjusted_def)
  from lens have l: "map (length \<circ> snd) df = replicate 23 (nat (end_year self - start_year self + 1))"
    by (simp add: raw_table_lengths date_range_length)
  then have "nrows df = nat (end_year self - start_year self + 1)"
    by (intro nrows_of_lengths [where ns = "replicate 22 (nat (end_year self - start_year self + 1))"])
       (simp add: eval_nat_numeral)
  with run names l show ?thesis
    by (simp add: raw_table_names)
qed


text \<open>
  C1, amended. For every subdivision name, known or unknown, every sequence of draws and
  every position of the random source, \<open>generate_financial_data\<close> returns a table. It has
  \<open>end_year - start_year + 1\<close> rows, that is 24 for the fixed range 2002-2025, and the 23
  columns \<open>Annee\<close>, \<open>Population\<close>, \<open>Menages\<close>, five revenue metrics, five expense metrics,
  four financial indicators and six sector investments, in this order; each column holds
  24 values.
\<close>

theorem C1_table_shape:
  "\<exists>df. fst (generate_financial_data (init commune_name) z p) = Some df \<and>
        nrows df = nat (end_year (init commune_name) - start_year (init commune_name) + 1) \<and>
        nrows df = 24 \<and>
        map fst df =
          [''Annee'', ''Population'', ''Menages'', ''Recettes_Totales'', ''Impots_Locaux'',
           ''Dotations_Etat'', ''Dotations_Territoriales'', ''Autres_Recettes'',
           ''Depenses_Totales'', ''Fonctionnement'', ''Investissement'', ''Charge_Dette'',
           ''Personnel'', ''Epargne_Brute'', ''Dette_Totale'', ''Taux_Endettement'',
           ''Taux_Fiscalite'', ''Investissement_Agriculture'', ''Investissement_Peche'',
           ''Investissement_Transport'', ''Investissement_Education'', ''Investissement_Sante'',
           ''Investissement_Culture''] \<and>
        length df = 23 \<and>
        map (length \<circ> snd) df = replicate 23 24"
proof -
  have n: "nat (end_year (init commune_name) - start_year (init commune_name) + 1) = 24"
    by (simp add: init_def)
  obtain df where run: "fst (generate_financial_data (init commune_name) z p) = Some df"
    and rows: "nrows df = nat (end_year (init commune_name) - start_year (init commune_name) + 1)"
    and names: "map fst df =
          [''Annee'', ''Population'', ''Menages'', ''Recettes_Totales'', ''Impots_Locaux'',
           ''Dotations_Etat'', ''Dotations_Territoriales'', ''Autres_Recettes'',
           ''Depenses_Totales'', ''Fonctionnement'', ''Investissement'', ''Charge_Dette'',
           ''Personnel'', ''Epargne_Brute'', ''Dette_Totale'', ''Taux_Endettement'',
           ''Taux_Fiscalite'', ''Investissement_Agriculture'', ''Investissement_Peche'',
           ''Investissement_Transport'', ''Investissement_Education'', ''Investissement_Sante'',
           ''Investissement_Culture'']"
    and lens: "map (length \<circ> snd) df =
       replicate 23 (nat (end_year (init commune_name) - start_year (init commune_name) + 1))"
    using generate_shape [of "init commune_name" z p] by (elim exE conjE)
  have "length (map fst df) = 23"
    unfolding names by simp
  then have len: "length df = 23"
    by simp
  show ?thesis
  proof (intro exI conjI)
    show "fst (generate_financial_data (init commune_name) z p) = Some df" by (rule run)
    show "nrows df = nat (end_year (init commune_name) - start_year (init commune_name) + 1)"
      by (rule rows)
    show "nrows df = 24" using rows unfolding n .
    show "map fst df =
          [''Annee'', ''Population'', ''Menages'', ''Recettes_Totales'', ''Impots_Locaux'',
           ''Dotations_Etat'', ''Dotations_Territoriales'', ''Autres_Recettes'',
           ''Depenses_Totales'', ''Fonctionnement'', ''Investissement'', ''Charge_Dette'',
           ''Personnel'', ''Epargne_Brute'', ''Dette_Totale'', ''Taux_Endettement'',
           ''Taux_Fiscalite'', ''Investissement_Agriculture'', ''Investissement_Peche'',
           ''Investissement_Transport'', ''Investissement_Education'', ''Investissement_Sante'',
           ''Investissement_Culture'']" by (rule names)
    show "length df = 23" by (rule len)
    show "map (length \<circ> snd) df = replicate 23 24" using lens unfolding n .
  qed
qed

text \<open>
  The table generated for Mata-Utu does not have 22 columns: the column set counts 23.
\<close>

theorem C1_counterexample:
  "length (the (fst (generate_financial_data (init ''Mata-Utu'') no_noise 0))) \<noteq> 22"
proof -
  obtain df where run: "fst (generate_financial_data (init ''Mata-Utu'') no_noise 0) = Some df"
    and names: "map fst df =
          [''Annee'', ''Population'', ''Menages'', ''Recettes_Totales'', ''Impots_Locaux'',
           ''Dotations_Etat'', ''Dotations_Territoriales'', ''Autres_Recettes'',
           ''Depenses_Totales'', ''Fonctionnement'', ''Investissement'', ''Charge_Dette'',
           ''Personnel'', ''Epargne_Brute'', ''Dette_Totale'', ''Taux_Endettement'',
           ''Taux_Fiscalite'', ''Investissement_Agriculture'', ''Investissement_Peche'',
           ''Investissement_Transport'', ''Investissement_Education'', ''Investissement_Sante'',
           ''Investissement_Culture'']"
    using generate_shape [of "init ''Mata-Utu''" no_noise 0] by (elim exE conjE)
  have "length (map fst df) = 23"
    unfolding names by simp
  then have "length df = 23"
    by simp
  then show ?thesis
    unfolding run by simp
qed

subsection \<open>End-to-end scenario\<close>

lemma raw_table_lookup:
  shows "map_of (raw_table self z p) ''Population'' =
       Some (simulate_population self (date_range (start_year self) (end_year self)))"
    "map_of (raw_table self z p) ''Menages'' =
       Some (simulate_households self (date_range (start_year self) (end_year self)))"
    "map_of (raw_table self z p) ''Recettes_Totales'' =
       Some (fst (simulate_total_revenue self (date_range (start_year self) (end_year self)) z
                (p + 0 * length (date_range (start_year self) (end_year self)))))"
    "map_of (raw_table self z p) ''Impots_Locaux'' =
       Some (fst (simulate_tax_revenue self (date_range (start_year self) (end_year self)) z
                (p + 1 * length (date_range (start_year self) (end_year self)))))"
    "map_of (raw_table self z p) ''Dotations_Etat'' =
       Some (fst (simulate_state_grants self (date_range (start_year self) (end_year self)) z
                (p + 2 * length (date_range (start_year self) (end_year self)))))"
    "map_of (raw_table self z p) ''Dotations_Territoriales'' =
       Some (fst (simulate_territorial_grants self (date_range (start_year self) (end_year self)) z
                (p + 3 * length (date_range (start_year self) (end_year self)))))"
    "map_of (raw_table self z p) ''Autres_Recettes'' =
       Some (fst (simulate_other_revenue self (date_range (start_year self) (end_year self)) z
                (p + 4 * length (date_range (start_year self) (end_year self)))))"
    "map_of (raw_table self z p) ''Depenses_Totales'' =
       Some (fst (simulate_total_expenses self (date_range (start_year self) (end_year self)) z
                (p + 5 * length (date_range (start_year self) (end_year self)))))"
    "map_of (raw_table self z p) ''Fonctionnement'' =
       Some (fst (simulate_operating_expenses self (date_range (start_year self) (end_year self)) z
                (p + 6 * length (date_range (start_year self) (end_year self)))))"
    "map_of (raw_table self z p) ''Investissement'' =
       Some (fst (simulate_investment_expenses self (date_range (start_year self) (end_year self)) z
                (p + 7 * length (date_range (start_year self) (end_year self)))))"
    "map_of (raw_table self z p) ''Charge_Dette'' =
       Some (fst (simulate_debt_charges self (date_range (start_year self) (end_year self)) z
                (p + 8 * length (date_range (start_year self) (end_year self)))))"
    "map_of (raw_table self z p) ''Personnel'' =
       Some (fst (simulate_staff_costs self (date_range (start_year self) (end_year self)) z
                (p + 9 * length (date_range (start_year self) (end_year self)))))"
    "map_of (raw_table self z p) ''Epargne_Brute'' =
       Some (fst (simulate_gross_savings self (date_range (start_year self) (end_year self)) z
                (p + 10 * length (date_range (start_year self) (end_year self)))))"
    "map_of (raw_table self z p) ''Dette_Totale'' =
       Some (fst (simulate_total_debt self (date_range (start_year self) (end_year self)) z
                (p + 11 * length (date_range (start_year self) (end_year self)))))"
    "map_of (raw_table self z p) ''Taux_Endettement'' =
       Some (fst (simulate_debt_ratio self (date_range (start_year self) (end_year self)) z
                (p + 12 * length (date_range (start_year self) (end_year self)))))"
    "map_of (raw_table self z p) ''Taux_Fiscalite'' =
       Some (fst (simulate_tax_rate self (date_range (start_year self) (end_year self)) z
                (p + 13 * length (date_range (start_year self) (end_year self)))))"
    "map_of (raw_table self z p) ''Investissement_Agriculture'' =
       Some (fst (simulate_agriculture_investment self (date_range (start_year self) (end_year self)) z
                (p + 14 * length (date_range (start_year self) (end_year self)))))"
    "map_of (raw_table self z p) ''Investissement_Peche'' =
       Some (fst (simulate_fishing_investment self (date_range (start_year self) (end_year self)) z
                (p + 15 * length (date_range (start_year self) (end_year self)))))"
    "map_of (raw_table self z p) ''Investissement_Transport'' =
       Some (fst (simulate_transport_investment self (date_range (start_year self) (end_year self)) z
                (p + 16 * length (date_range (start_year self) (end_year self)))))"
    "map_of (raw_table self z p) ''Investissement_Education'' =
       Some (fst (simulate_education_investment self (date_range (start_year self) (end_year self)) z
                (p + 17 * length (date_range (start_year self) (end_year self)))))"
    "map_of (raw_table self z p) ''Investissement_Sante'' =
       Some (fst (simulate_health_investment self (date_range (start_year self) (end_year self)) z
                (p + 18 * length (date_range (start_year self) (end_year self)))))"
    "map_of (raw_table self z p) ''Investissement_Culture'' =
       Some (fst (simulate_culture_investment self (date_range (start_year self) (end_year self)) z
                (p + 19 * length (date_range (start_year self) (end_year self)))))"
  by (simp_all add: raw_table_def Let_def)

lemma loc_get_column:
  "map_of df c = Some xs \<Longrightarrow> i < length xs \<Longrightarrow> loc_get df i c = Some (xs ! i)"
  by (simp add: loc_get_def)

lemma simulate_population_nth:
  "i < length dates \<Longrightarrow>
   simulate_population self dates ! i =
     population_base (config self) *
       (1 + (if type_c (config self) = ''chef_lieu'' then 0.01
             else if type_c (config self) = ''district_futuna'' then 0.008 else 0.009) * real i)"
  by (simp add: simulate_population_def nth_enumerate_eq Let_def)

lemma simulate_households_nth:
  "i < length dates \<Longrightarrow>
   simulate_households self dates ! i = population_base (config self) / 4.5 * (1 + 0.008 * real i)"
  by (simp add: simulate_households_def nth_enumerate_eq Let_def)

lemma generated_cells:
  "\<exists>df. fst (generate_financial_data self z p) = Some df \<and>
        (\<forall>i c. i < length (date_range (start_year self) (end_year self)) \<longrightarrow>
           loc_get df i c =
             map_option
               (\<lambda>v. v * trend_factor (real_of_int (date_range (start_year self) (end_year self) ! i)) c)
               (loc_get (raw_table self z p) i c)) \<and>
        (\<forall>c. c \<notin> set pass_columns \<longrightarrow> map_of df c = map_of (raw_table self z p) c)"
proof -
  from generate_adjusted [of self z p]
  obtain df where run: "fst (generate_financial_data self z p) = Some df"
    and adj: "adjusted {0..<length (date_range (start_year self) (end_year self))}
          (map real_of_int (date_range (start_year self) (end_year self)))
          (raw_table self z p) df"
    by blast
  have "loc_get df i c =
          map_option
            (\<lambda>v. v * trend_factor (real_of_int (date_range (start_year self) (end_year self) ! i)) c)
            (loc_get (raw_table self z p) i c)"
    if "i < length (date_range (start_year self) (end_year self))" for i c
    using adjusted_cell [OF adj, of i c] that by simp
  moreover have "map_of df c = map_of (raw_table self z p) c" if "c \<notin> set pass_columns" for c
    by (rule adjusted_column [OF adj that])
  ultimately show ?thesis
    using run by blast
qed

lemma trend_factor_2002:
  "trend_factor 2002 ''Annee'' = 1" "trend_factor 2002 ''Population'' = 1"
  "trend_factor 2002 ''Investissement_Agriculture'' = 1.4"
  "trend_factor 2002 ''Investissement_Peche'' = 1.3"
  by (simp_all add: trend_factor_def factor_initial_def factor_crise_def factor_covid_def
        factor_relance_def)

lemma trend_factor_fixed:
  "trend_factor year ''Annee'' = 1" "trend_factor year ''Population'' = 1"
  "trend_factor year ''Menages'' = 1" "trend_factor year ''Taux_Endettement'' = 1"
  "trend_factor year ''Taux_Fiscalite'' = 1"
  by (simp_all add: trend_factor_other pass_columns_def)

text \<open>
  C2. Take a configuration of type \<open>chef_lieu\<close>, a range that starts in 2002 and reaches
  2003, and no noise (every draw returns one). In the generated table the population of
  the row 2002 is \<open>population_base\<close>, the population of the row 2003 is
  \<open>population_base * (1 + 0.01 * 1)\<close>, and in the row 2002 the agriculture investment and
  the fishing investment are the values of their generators multiplied by 1.4 and by 1.3.
\<close>

theorem C2_chef_lieu_scenario:
  assumes "type_c (config self) = ''chef_lieu''" and "start_year self = 2002"
    and "2003 \<le> end_year self"
  shows "\<exists>df. fst (generate_financial_data self no_noise p) = Some df \<and>
           loc_get df 0 ''Annee'' = Some 2002 \<and>
           loc_get df 1 ''Annee'' = Some 2003 \<and>
           loc_get df 0 ''Population'' = Some (population_base (config self)) \<and>
           loc_get df 1 ''Population'' = Some (population_base (config self) * (1 + 0.01 * 1)) \<and>
           loc_get df 0 ''Investissement_Agriculture'' =
             Some (budget_base (config self) * 0.07
                   * (if ''agriculture'' \<in> set (specialites (config self)) then 1.5 else 0.8) * 1.4) \<and>
           loc_get df 0 ''Investissement_Peche'' =
             Some (budget_base (config self) * 0.06
                   * (if ''peche'' \<in> set (specialites (config self)) then 1.6 else 0.7) * 1.3)"
proof -
  let ?dates = "date_range (start_year self) (end_year self)"
  from assms have n: "0 < length ?dates" "1 < length ?dates"
    by (simp_all add: date_range_length)
  from assms have y: "?dates ! 0 = 2002" "?dates ! 1 = 2003"
    by (simp_all add: date_range_nth)
  from generated_cells [of self no_noise p]
  obtain df where run: "fst (generate_financial_data self no_noise p) = Some df"
    and cell: "\<And>i c. i < length ?dates \<Longrightarrow>
           loc_get df i c =
             map_option (\<lambda>v. v * trend_factor (real_of_int (?dates ! i)) c)
               (loc_get (raw_table self no_noise p) i c)"
    by blast
  have annee: "loc_get (raw_table self no_noise p) i ''Annee'' = Some (real_of_int (?dates ! i))"
    if "i < length ?dates" for i
    using that by (simp add: loc_get_column [OF raw_table_Annee])
  have pop: "loc_get (raw_table self no_noise p) i ''Population'' =
               Some (population_base (config self) * (1 + 0.01 * real i))"
    if "i < length ?dates" for i
    using that assms(1)
    by (simp add: loc_get_column [OF raw_table_lookup(1)] simulate_population_length
          simulate_population_nth)
  have agri: "loc_get (raw_table self no_noise p) 0 ''Investissement_Agriculture'' =
                Some (budget_base (config self) * 0.07
                   * (if ''agriculture'' \<in> set (specialites (config self)) then 1.5 else 0.8))"
    using n(1) y(1)
    by (simp add: loc_get_column [OF raw_table_lookup(17)] simulate_length
          agriculture_investment_cycle sector_trend_def)
  have peche: "loc_get (raw_table self no_noise p) 0 ''Investissement_Peche'' =
                Some (budget_base (config self) * 0.06
                   * (if ''peche'' \<in> set (specialites (config self)) then 1.6 else 0.7))"
    using n(1) y(1)
    by (simp add: loc_get_column [OF raw_table_lookup(18)] simulate_length
          fishing_investment_cycle sector_trend_def)
  have "loc_get df 0 ''Annee'' = Some 2002"
    by (simp add: cell [OF n(1)] annee [OF n(1)] y trend_factor_fixed)
  moreover have "loc_get df 1 ''Annee'' = Some 2003"
    unfolding cell [OF n(2)] annee [OF n(2)] y by (simp add: trend_factor_fixed)
  moreover have "loc_get df 0 ''Population'' = Some (population_base (config self))"
    by (simp add: cell [OF n(1)] pop [OF n(1)] trend_factor_fixed)
  moreover have "loc_get df 1 ''Population'' = Some (population_base (config self) * (1 + 0.01 * 1))"
    unfolding cell [OF n(2)] pop [OF n(2)] by (simp add: trend_factor_fixed)
  moreover have "loc_get df 0 ''Investissement_Agriculture'' =
             Some (budget_base (config self) * 0.07
                   * (if ''agriculture'' \<in> set (specialites (config self)) then 1.5 else 0.8) * 1.4)"
    by (simp add: cell [OF n(1)] agri y trend_factor_2002)
  moreover have "loc_get df 0 ''Investissement_Peche'' =
             Some (budget_base (config self) * 0.06
                   * (if ''peche'' \<in> set (specialites (config self)) then 1.6 else 0.7) * 1.3)"
    by (simp add: cell [OF n(1)] peche y trend_factor_2002)
  ultimately show ?thesis
    using run by (intro exI conjI)
qed


text \<open>
  The instance of C2 for Mata-Utu, the one registered configuration of type \<open>chef_lieu\<close>.
\<close>

theorem C2_witness:
  "type_c (config (init ''Mata-Utu'')) = ''chef_lieu'' \<and> start_year (init ''Mata-Utu'') = 2002 \<and>
   2003 \<le> end_year (init ''Mata-Utu'') \<and>
   (\<exists>df. fst (generate_financial_data (init ''Mata-Utu'') no_noise 0) = Some df \<and>
      loc_get df 0 ''Annee'' = Some 2002 \<and>
      loc_get df 1 ''Annee'' = Some 2003 \<and>
      loc_get df 0 ''Population'' = Some 1200 \<and>
      loc_get df 1 ''Population'' = Some 1212 \<and>
      loc_get df 0 ''Investissement_Agriculture'' = Some 2.744 \<and>
      loc_get df 0 ''Investissement_Peche'' = Some 1.911)"
proof -
  have c: "config (init ''Mata-Utu'') =
             \<lparr>population_base = 1200, budget_base = 35, type_c = ''chef_lieu'',
              specialites = [''administration'', ''commerce'', ''port'', ''tourisme'', ''services'']\<rparr>"
    by (simp add: init_def get_commune_config_def configs_def)
  have h: "type_c (config (init ''Mata-Utu'')) = ''chef_lieu''" "start_year (init ''Mata-Utu'') = 2002"
    "2003 \<le> end_year (init ''Mata-Utu'')"
    by (simp_all add: c) (simp_all add: init_def)
  from C2_chef_lieu_scenario [OF h, of 0]
  obtain df where run: "fst (generate_financial_data (init ''Mata-Utu'') no_noise 0) = Some df"
    and a0: "loc_get df 0 ''Annee'' = Some 2002"
    and a1: "loc_get df 1 ''Annee'' = Some 2003"
    and p0: "loc_get df 0 ''Population'' = Some (population_base (config (init ''Mata-Utu'')))"
    and p1: "loc_get df 1 ''Population'' =
               Some (population_base (config (init ''Mata-Utu'')) * (1 + 0.01 * 1))"
    and ag: "loc_get df 0 ''Investissement_Agriculture'' =
             Some (budget_base (config (init ''Mata-Utu'')) * 0.07
                   * (if ''agriculture'' \<in> set (specialites (config (init ''Mata-Utu''))) then 1.5 else 0.8)
                   * 1.4)"
    and pe: "loc_get df 0 ''Investissement_Peche'' =
             Some (budget_base (config (init ''Mata-Utu'')) * 0.06
                   * (if ''peche'' \<in> set (specialites (config (init ''Mata-Utu''))) then 1.6 else 0.7)
                   * 1.3)"
    by (elim exE conjE)
  have "loc_get df 0 ''Population'' = Some 1200"
    unfolding p0 c by simp
  moreover have "loc_get df 1 ''Population'' = Some 1212"
    unfolding p1 c by simp
  moreover have "loc_get df 0 ''Investissement_Agriculture'' = Some 2.744"
    unfolding ag c by simp
  moreover have "loc_get df 0 ''Investissement_Peche'' = Some 1.911"
    unfolding pe c by simp
  ultimately show ?thesis
    using h run a0 a1 by (intro exI conjI)
qed

subsection \<open>Positivity\<close>

lemma config_positive:
  "0 < population_base (get_commune_config commune_name)"
  "0 < budget_base (get_commune_config commune_name)"
  by (simp_all add: get_commune_config_def configs_def default_config_def)

lemma init_range:
  "date_range (start_year (init commune_name)) (end_year (init commune_name)) = date_range 2002 2025"
  "length (date_range 2002 2025) = 24"
  by (simp_all add: init_def date_range_length)

lemma debt_ratio_nth:
  "i < length dates \<Longrightarrow>
   fst (simulate_debt_ratio self dates z p) ! i =
     0.70 * (if dates ! i \<ge> 2010 then 1 - 0.01 * real_of_int (dates ! i - 2010) else 1)
       * fst (normal z 1 0.07 (p + i))"
  by (simp add: simulate_debt_ratio_def noisy_loop_nth Let_def normal_def)

lemma tax_rate_nth:
  "i < length dates \<Longrightarrow>
   fst (simulate_tax_rate self dates z p) ! i =
     0.80 * (if dates ! i \<ge> 2010 then 1 + 0.004 * real_of_int (dates ! i - 2010) else 1)
       * fst (normal z 1 0.04 (p + i))"
  by (simp add: simulate_tax_rate_def noisy_loop_nth Let_def normal_def)

lemma debt_trend_positive:
  "y \<le> 2025 \<Longrightarrow> 0 < (if y \<ge> 2010 then 1 - 0.01 * real_of_int (y - 2010) else 1)"
  by simp

lemma tax_trend_positive:
  "0 < (if y \<ge> 2010 then 1 + 0.004 * real_of_int (y - 2010) else 1)"
  by (simp add: add_pos_nonneg)

text \<open>
  The sign of the two ratios follows the sign of the draw: the generators multiply a
  positive number by the value returned by \<open>np.random.normal(1, 0.07)\<close> and
  \<open>np.random.normal(1, 0.04)\<close>.
\<close>

lemma ratio_sign_follows_draw:
  assumes "i < 24"
  shows "\<exists>df pop men debt tax.
           fst (generate_financial_data (init commune_name) z p) = Some df \<and>
           loc_get df i ''Population'' = Some pop \<and> 0 < pop \<and>
           loc_get df i ''Menages'' = Some men \<and> 0 < men \<and>
           loc_get df i ''Taux_Endettement'' = Some debt \<and>
           (0 < debt) = (0 < fst (normal z 1 0.07 (p + 12 * 24 + i))) \<and>
           loc_get df i ''Taux_Fiscalite'' = Some tax \<and>
           (0 < tax) = (0 < fst (normal z 1 0.04 (p + 13 * 24 + i)))"
proof -
  let ?self = "init commune_name"
  let ?dates = "date_range 2002 2025"
  from assms have i: "i < length ?dates"
    by (simp add: init_range)
  from assms have y: "?dates ! i = 2002 + int i"
    by (simp add: date_range_nth)
  from assms have y25: "?dates ! i \<le> 2025"
    unfolding y by simp
  from generated_cells [of ?self z p]
  obtain df where run: "fst (generate_financial_data ?self z p) = Some df"
    and cell: "\<And>j c. j < length ?dates \<Longrightarrow>
           loc_get df j c =
             map_option (\<lambda>v. v * trend_factor (real_of_int (?dates ! j)) c)
               (loc_get (raw_table ?self z p) j c)"
    unfolding init_range by blast
  have base: "0 < population_base (config ?self)"
    by (simp add: init_def config_positive)
  have growth: "0 < 1 + r * real i" if "0 \<le> r" for r :: real
    using that by (simp add: add_pos_nonneg)
  let ?pop = "simulate_population ?self ?dates ! i"
  let ?men = "simulate_households ?self ?dates ! i"
  let ?debt = "fst (simulate_debt_ratio ?self ?dates z (p + 12 * 24)) ! i"
  let ?tax = "fst (simulate_tax_rate ?self ?dates z (p + 13 * 24)) ! i"
  have 1: "loc_get df i ''Population'' = Some ?pop"
    using i raw_table_lookup(1) [of ?self z p]
    by (simp add: cell [OF i] trend_factor_fixed init_range loc_get_column
          simulate_population_length)
  have 2: "0 < ?pop"
    using base i by (simp add: simulate_population_nth growth)
  have 3: "loc_get df i ''Menages'' = Some ?men"
    using i raw_table_lookup(2) [of ?self z p]
    by (simp add: cell [OF i] trend_factor_fixed init_range loc_get_column
          simulate_households_length)
  have 4: "0 < ?men"
    using base i by (simp add: simulate_households_nth growth)
  have 5: "loc_get df i ''Taux_Endettement'' = Some ?debt"
    using i raw_table_lookup(15) [of ?self z p]
    by (simp add: cell [OF i] trend_factor_fixed init_range loc_get_column simulate_length)
  have 6: "(0 < ?debt) = (0 < fst (normal z 1 0.07 (p + 12 * 24 + i)))"
    unfolding debt_ratio_nth [OF i]
    using debt_trend_positive [OF y25] by (simp add: zero_less_mult_iff)
  have 7: "loc_get df i ''Taux_Fiscalite'' = Some ?tax"
    using i raw_table_lookup(16) [of ?self z p]
    by (simp add: cell [OF i] trend_factor_fixed init_range loc_get_column simulate_length)
  have 8: "(0 < ?tax) = (0 < fst (normal z 1 0.04 (p + 13 * 24 + i)))"
    unfolding tax_rate_nth [OF i]
    using tax_trend_positive [of "?dates ! i"] by (simp add: zero_less_mult_iff)
  from run 1 2 3 4 5 6 7 8 show ?thesis
    by (intro exI conjI)
qed


lemma draw_positive:
  assumes "\<bar>z q\<bar> \<le> 12.01"
  shows "0 < fst (normal z 1 0.07 q)" and "0 < fst (normal z 1 0.04 q)"
proof -
  from assms have "- 12.01 \<le> z q"
    by (simp add: abs_le_iff)
  then show "0 < fst (normal z 1 0.07 q)" and "0 < fst (normal z 1 0.04 q)"
    by (simp_all add: normal_def)
qed

text \<open>
  C5. In every row of the table generated for any subdivision name the population and the
  number of households are strictly positive, and the debt ratio and the tax rate are
  strictly greater than 0 after the noise draw is applied. The draws are those of the
  sampler: the standard draws are bounded by 12.01 in absolute value, so the noise factor
  is at least \<open>1 - 0.07 * 12.01\<close> for the debt ratio and \<open>1 - 0.04 * 12.01\<close> for the tax
  rate.
\<close>

theorem C5_rows_positive:
  assumes "i < 24" and "\<And>n. \<bar>z n\<bar> \<le> 12.01"
  shows "\<exists>df pop men debt tax.
           fst (generate_financial_data (init commune_name) z p) = Some df \<and>
           loc_get df i ''Population'' = Some pop \<and> 0 < pop \<and>
           loc_get df i ''Menages'' = Some men \<and> 0 < men \<and>
           loc_get df i ''Taux_Endettement'' = Some debt \<and> 0 < debt \<and>
           loc_get df i ''Taux_Fiscalite'' = Some tax \<and> 0 < tax"
proof -
  from ratio_sign_follows_draw [OF assms(1), of commune_name z p]
  obtain df pop men debt tax
    where run: "fst (generate_financial_data (init commune_name) z p) = Some df"
      and 1: "loc_get df i ''Population'' = Some pop" "0 < pop"
      and 2: "loc_get df i ''Menages'' = Some men" "0 < men"
      and 3: "loc_get df i ''Taux_Endettement'' = Some debt"
      and 4: "(0 < debt) = (0 < fst (normal z 1 0.07 (p + 12 * 24 + i)))"
      and 5: "loc_get df i ''Taux_Fiscalite'' = Some tax"
      and 6: "(0 < tax) = (0 < fst (normal z 1 0.04 (p + 13 * 24 + i)))"
    by (elim exE conjE)
  have 7: "0 < debt"
    unfolding 4 by (rule draw_positive(1) [OF assms(2)])
  have 8: "0 < tax"
    unfolding 6 by (rule draw_positive(2) [OF assms(2)])
  from run 1 2 3 7 5 8 show ?thesis
    by (intro exI conjI)
qed

text \<open>
  The instance of C5 for Alo at the first row, with every standard draw equal to -12.
\<close>

theorem C5_witness:
  "(0::nat) < 24 \<and> (\<forall>n. \<bar>low_noise n\<bar> \<le> 12.01) \<and>
   (\<exists>df pop men debt tax.
      fst (generate_financial_data (init ''Alo'') low_noise 0) = Some df \<and>
      loc_get df 0 ''Population'' = Some pop \<and> 0 < pop \<and>
      loc_get df 0 ''Menages'' = Some men \<and> 0 < men \<and>
      loc_get df 0 ''Taux_Endettement'' = Some debt \<and> 0 < debt \<and>
      loc_get df 0 ''Taux_Fiscalite'' = Some tax \<and> 0 < tax)"
proof -
  have h: "(0::nat) < 24"
    by simp
  have b: "\<bar>low_noise n\<bar> \<le> 12.01" for n
    by (simp add: low_noise_def)
  from b have "\<forall>n. \<bar>low_noise n\<bar> \<le> 12.01"
    by (rule allI)
  with h C5_rows_positive [where i = 0 and z = low_noise and commune_name = "''Alo''" and p = 0,
      OF h b]
  show ?thesis
    by (intro conjI)
qed

subsection \<open>Columns without noise\<close>

lemma simulate_population_map:
  "simulate_population self dates =
     map (\<lambda>i. population_base (config self) *
                (1 + (if type_c (config self) = ''chef_lieu'' then 0.01
                      else if type_c (config self) = ''district_futuna'' then 0.008 else 0.009)
                     * real i))
       [0..<length dates]"
  by (rule nth_equalityI) (simp_all add: simulate_population_length simulate_population_nth)

lemma simulate_households_map:
  "simulate_households self dates =
     map (\<lambda>i. population_base (config self) / 4.5 * (1 + 0.008 * real i)) [0..<length dates]"
  by (rule nth_equalityI) (simp_all add: simulate_households_length simulate_households_nth)

lemma generated_cell:
  assumes "fst (generate_financial_data self z p) = Some df"
    and "i < length (date_range (start_year self) (end_year self))"
  shows "loc_get df i c =
           map_option
             (\<lambda>v. v * trend_factor (real_of_int (date_range (start_year self) (end_year self) ! i)) c)
             (loc_get (raw_table self z p) i c)"
  using generated_cells [of self z p] assms by auto

lemma generated_column:
  assumes "fst (generate_financial_data self z p) = Some df" and "c \<notin> set pass_columns"
  shows "map_of df c = map_of (raw_table self z p) c"
  using generated_cells [of self z p] assms by auto

lemma raw_cell:
  assumes "i < length (date_range (start_year self) (end_year self))"
  shows
    "loc_get (raw_table self z p) i ''Recettes_Totales'' =
       Some (fst (simulate_total_revenue self (date_range (start_year self) (end_year self)) z
                (p + 0 * length (date_range (start_year self) (end_year self)))) ! i)"
    "loc_get (raw_table self z p) i ''Impots_Locaux'' =
       Some (fst (simulate_tax_revenue self (date_range (start_year self) (end_year self)) z
                (p + 1 * length (date_range (start_year self) (end_year self)))) ! i)"
    "loc_get (raw_table self z p) i ''Dotations_Etat'' =
       Some (fst (simulate_state_grants self (date_range (start_year self) (end_year self)) z
                (p + 2 * length (date_range (start_year self) (end_year self)))) ! i)"
    "loc_get (raw_table self z p) i ''Dotations_Territoriales'' =
       Some (fst (simulate_territorial_grants self (date_range (start_year self) (end_year self)) z
                (p + 3 * length (date_range (start_year self) (end_year self)))) ! i)"
    "loc_get (raw_table self z p) i ''Autres_Recettes'' =
       Some (fst (simulate_other_revenue self (date_range (start_year self) (end_year self)) z
                (p + 4 * length (date_range (start_year self) (end_year self)))) ! i)"
    "loc_get (raw_table self z p) i ''Depenses_Totales'' =
       Some (fst (simulate_total_expenses self (date_range (start_year self) (end_year self)) z
                (p + 5 * length (date_range (start_year self) (end_year self)))) ! i)"
    "loc_get (raw_table self z p) i ''Fonctionnement'' =
       Some (fst (simulate_operating_expenses self (date_range (start_year self) (end_year self)) z
                (p + 6 * length (date_range (start_year self) (end_year self)))) ! i)"
    "loc_get (raw_table self z p) i ''Investissement'' =
       Some (fst (simulate_investment_expenses self (date_range (start_year self) (end_year self)) z
                (p + 7 * length (date_range (start_year self) (end_year self)))) ! i)"
    "loc_get (raw_table self z p) i ''Charge_Dette'' =
       Some (fst (simulate_debt_charges self (date_range (start_year self) (end_year self)) z
                (p + 8 * length (date_range (start_year self) (end_year self)))) ! i)"
    "loc_get (raw_table self z p) i ''Personnel'' =
       Some (fst (simulate_staff_costs self (date_range (start_year self) (end_year self)) z
                (p + 9 * length (date_range (start_year self) (end_year self)))) ! i)"
    "loc_get (raw_table self z p) i ''Epargne_Brute'' =
       Some (fst (simulate_gross_savings self (date_range (start_year self) (end_year self)) z
                (p + 10 * length (date_range (start_year self) (end_year self)))) ! i)"
    "loc_get (raw_table self z p) i ''Dette_Totale'' =
       Some (fst (simulate_total_debt self (date_range (start_year self) (end_year self)) z
                (p + 11 * length (date_range (start_year self) (end_year self)))) ! i)"
    "loc_get (raw_table self z p) i ''Taux_Endettement'' =
       Some (fst (simulate_debt_ratio self (date_range (start_year self) (end_year self)) z
                (p + 12 * length (date_range (start_year self) (end_year self)))) ! i)"
    "loc_get (raw_table self z p) i ''Taux_Fiscalite'' =
       Some (fst (simulate_tax_rate self (date_range (start_year self) (end_year self)) z
                (p + 13 * length (date_range (start_year self) (end_year self)))) ! i)"
    "loc_get (raw_table self z p) i ''Investissement_Agriculture'' =
       Some (fst (simulate_agriculture_investment self (date_range (start_year self) (end_year self)) z
                (p + 14 * length (date_range (start_year self) (end_year self)))) ! i)"
    "loc_get (raw_table self z p) i ''Investissement_Peche'' =
       Some (fst (simulate_fishing_investment self (date_range (start_year self) (end_year self)) z
                (p + 15 * length (date_range (start_year self) (end_year self)))) ! i)"
    "loc_get (raw_table self z p) i ''Investissement_Transport'' =
       Some (fst (simulate_transport_investment self (date_range (start_year self) (end_year self)) z
                (p + 16 * length (date_range (start_year self) (end_year self)))) ! i)"
    "loc_get (raw_table self z p) i ''Investissement_Education'' =
       Some (fst (simulate_education_investment self (date_range (start_year self) (end_year self)) z
                (p + 17 * length (date_range (start_year self) (end_year self)))) ! i)"
    "loc_get (raw_table self z p) i ''Investissement_Sante'' =
       Some (fst (simulate_health_investment self (date_range (start_year self) (end_year self)) z
                (p + 18 * length (date_range (start_year self) (end_year self)))) ! i)"
    "loc_get (raw_table self z p) i ''Investissement_Culture'' =
       Some (fst (simulate_culture_investment self (date_range (start_year self) (end_year self)) z
                (p + 19 * length (date_range (start_year self) (end_year self)))) ! i)"
  using assms
  by (simp_all add: loc_get_column [OF raw_table_lookup(3)]
        loc_get_column [OF raw_table_lookup(4)]
        loc_get_column [OF raw_table_lookup(5)]
        loc_get_column [OF raw_table_lookup(6)]
        loc_get_column [OF raw_table_lookup(7)]
        loc_get_column [OF raw_table_lookup(8)]
        loc_get_column [OF raw_table_lookup(9)]
        loc_get_column [OF raw_table_lookup(10)]
        loc_get_column [OF raw_table_lookup(11)]
        loc_get_column [OF raw_table_lookup(12)]
        loc_get_column [OF raw_table_lookup(13)]
        loc_get_column [OF raw_table_lookup(14)]
        loc_get_column [OF raw_table_lookup(15)]
        loc_get_column [OF raw_table_lookup(16)]
        loc_get_column [OF raw_table_lookup(17)]
        loc_get_column [OF raw_table_lookup(18)]
        loc_get_column [OF raw_table_lookup(19)]
        loc_get_column [OF raw_table_lookup(20)]
        loc_get_column [OF raw_table_lookup(21)]
        loc_get_column [OF raw_table_lookup(22)]
        simulate_length)

lemma first_row_raw:
  shows
    "loc_get (raw_table (init commune_name) z p) 0 ''Recettes_Totales'' =
       Some (budget_base (config (init commune_name)) * fst (normal z 1 0.08 (p + 0 * 24)))"
    "loc_get (raw_table (init commune_name) z p) 0 ''Impots_Locaux'' =
       Some (budget_base (config (init commune_name)) * 0.25 * fst (normal z 1 0.09 (p + 1 * 24)))"
    "loc_get (raw_table (init commune_name) z p) 0 ''Dotations_Etat'' =
       Some (budget_base (config (init commune_name)) * 0.55 * fst (normal z 1 0.06 (p + 2 * 24)))"
    "loc_get (raw_table (init commune_name) z p) 0 ''Dotations_Territoriales'' =
       Some (budget_base (config (init commune_name)) * 0.12 * fst (normal z 1 0.07 (p + 3 * 24)))"
    "loc_get (raw_table (init commune_name) z p) 0 ''Autres_Recettes'' =
       Some (budget_base (config (init commune_name)) * 0.08 * fst (normal z 1 0.10 (p + 4 * 24)))"
    "loc_get (raw_table (init commune_name) z p) 0 ''Depenses_Totales'' =
       Some (budget_base (config (init commune_name)) * 0.98 * fst (normal z 1 0.07 (p + 5 * 24)))"
    "loc_get (raw_table (init commune_name) z p) 0 ''Fonctionnement'' =
       Some (budget_base (config (init commune_name)) * 0.68 * fst (normal z 1 0.06 (p + 6 * 24)))"
    "loc_get (raw_table (init commune_name) z p) 0 ''Investissement'' =
       Some (budget_base (config (init commune_name)) * 0.30 * fst (normal z 1 0.16 (p + 7 * 24)))"
    "loc_get (raw_table (init commune_name) z p) 0 ''Charge_Dette'' =
       Some (budget_base (config (init commune_name)) * 0.06 * fst (normal z 1 0.10 (p + 8 * 24)))"
    "loc_get (raw_table (init commune_name) z p) 0 ''Personnel'' =
       Some (budget_base (config (init commune_name)) * 0.48 * fst (normal z 1 0.05 (p + 9 * 24)))"
    "loc_get (raw_table (init commune_name) z p) 0 ''Epargne_Brute'' =
       Some (budget_base (config (init commune_name)) * 0.02 * fst (normal z 1 0.13 (p + 10 * 24)))"
    "loc_get (raw_table (init commune_name) z p) 0 ''Dette_Totale'' =
       Some (budget_base (config (init commune_name)) * 0.75 * fst (normal z 1 0.09 (p + 11 * 24)))"
    "loc_get (raw_table (init commune_name) z p) 0 ''Taux_Endettement'' =
       Some (0.70 * fst (normal z 1 0.07 (p + 12 * 24)))"
    "loc_get (raw_table (init commune_name) z p) 0 ''Taux_Fiscalite'' =
       Some (0.80 * fst (normal z 1 0.04 (p + 13 * 24)))"
    "loc_get (raw_table (init commune_name) z p) 0 ''Investissement_Agriculture'' =
       Some (budget_base (config (init commune_name)) * 0.07 * (if ''agriculture'' \<in> set (specialites (config (init commune_name))) then 1.5 else 0.8) * fst (normal z 1 0.15 (p + 14 * 24)))"
    "loc_get (raw_table (init commune_name) z p) 0 ''Investissement_Peche'' =
       Some (budget_base (config (init commune_name)) * 0.06 * (if ''peche'' \<in> set (specialites (config (init commune_name))) then 1.6 else 0.7) * fst (normal z 1 0.16 (p + 15 * 24)))"
    "loc_get (raw_table (init commune_name) z p) 0 ''Investissement_Transport'' =
       Some (budget_base (config (init commune_name)) * 0.05 * (if ''transport'' \<in> set (specialites (config (init commune_name))) then 1.4 else 0.9) * fst (normal z 1 0.14 (p + 16 * 24)))"
    "loc_get (raw_table (init commune_name) z p) 0 ''Investissement_Education'' =
       Some (budget_base (config (init commune_name)) * 0.06 * (if ''education'' \<in> set (specialites (config (init commune_name))) then 1.4 else 0.9) * fst (normal z 1 0.17 (p + 17 * 24)))"
    "loc_get (raw_table (init commune_name) z p) 0 ''Investissement_Sante'' =
       Some (budget_base (config (init commune_name)) * 0.05 * (if ''sante'' \<in> set (specialites (config (init commune_name))) then 1.5 else 0.9) * fst (normal z 1 0.16 (p + 18 * 24)))"
    "loc_get (raw_table (init commune_name) z p) 0 ''Investissement_Culture'' =
       Some (budget_base (config (init commune_name)) * 0.04 * (if ''culture'' \<in> set (specialites (config (init commune_name))) then 1.6 else 0.7) * fst (normal z 1 0.15 (p + 19 * 24)))"
  by (simp_all add: raw_cell init_range simulate_defs noisy_loop_nth normal_def date_range_nth
        Let_def)

lemma trend_factor_2002_nonzero: "trend_factor 2002 c \<noteq> 0"
  by (simp add: trend_factor_def factor_initial_def factor_crise_def factor_covid_def
        factor_relance_def)

lemma first_row_generated:
  assumes "fst (generate_financial_data (init commune_name) z p) = Some df"
  shows "loc_get df 0 c =
           map_option (\<lambda>v. v * trend_factor 2002 c) (loc_get (raw_table (init commune_name) z p) 0 c)"
  using generated_cell [OF assms, of 0 c]
  by (simp add: init_range date_range_nth)

lemma scaled_cells_differ:
  "a \<noteq> 0 \<Longrightarrow> t \<noteq> 0 \<Longrightarrow> u \<noteq> v \<Longrightarrow>
   map_option (\<lambda>x. x * t) (Some (a * u)) \<noteq> map_option (\<lambda>x. x * t) (Some (a * v))"
  for a t u v :: real
  by simp

lemma differ_one:
  assumes a: "fst (generate_financial_data (init commune_name) no_noise q1) = Some dfA"
    and b: "fst (generate_financial_data (init commune_name) low_noise q2) = Some dfB"
    and ra: "loc_get (raw_table (init commune_name) no_noise q1) 0 c =
               Some (pre * fst (normal no_noise 1 sd qa))"
    and rb: "loc_get (raw_table (init commune_name) low_noise q2) 0 c =
               Some (pre * fst (normal low_noise 1 sd qb))"
    and pre: "pre \<noteq> 0" and sd: "sd \<noteq> 0"
  shows "loc_get dfA 0 c \<noteq> loc_get dfB 0 c"
proof -
  from sd have "fst (normal no_noise 1 sd qa) \<noteq> fst (normal low_noise 1 sd qb)"
    by (simp add: normal_def no_noise_def low_noise_def)
  with pre show ?thesis
    unfolding first_row_generated [OF a] first_row_generated [OF b] ra rb
    by (intro scaled_cells_differ trend_factor_2002_nonzero)
qed

lemma noisy_columns_differ:
  assumes a: "fst (generate_financial_data (init commune_name) no_noise q1) = Some dfA"
    and b: "fst (generate_financial_data (init commune_name) low_noise q2) = Some dfB"
  shows
    "loc_get dfA 0 ''Recettes_Totales'' \<noteq> loc_get dfB 0 ''Recettes_Totales''"
    "loc_get dfA 0 ''Impots_Locaux'' \<noteq> loc_get dfB 0 ''Impots_Locaux''"
    "loc_get dfA 0 ''Dotations_Etat'' \<noteq> loc_get dfB 0 ''Dotations_Etat''"
    "loc_get dfA 0 ''Dotations_Territoriales'' \<noteq> loc_get dfB 0 ''Dotations_Territoriales''"
    "loc_get dfA 0 ''Autres_Recettes'' \<noteq> loc_get dfB 0 ''Autres_Recettes''"
    "loc_get dfA 0 ''Depenses_Totales'' \<noteq> loc_get dfB 0 ''Depenses_Totales''"
    "loc_get dfA 0 ''Fonctionnement'' \<noteq> loc_get dfB 0 ''Fonctionnement''"
    "loc_get dfA 0 ''Investissement'' \<noteq> loc_get dfB 0 ''Investissement''"
    "loc_get dfA 0 ''Charge_Dette'' \<noteq> loc_get dfB 0 ''Charge_Dette''"
    "loc_get dfA 0 ''Personnel'' \<noteq> loc_get dfB 0 ''Personnel''"
    "loc_get dfA 0 ''Epargne_Brute'' \<noteq> loc_get dfB 0 ''Epargne_Brute''"
    "loc_get dfA 0 ''Dette_Totale'' \<noteq> loc_get dfB 0 ''Dette_Totale''"
    "loc_get dfA 0 ''Taux_Endettement'' \<noteq> loc_get dfB 0 ''Taux_Endettement''"
    "loc_get dfA 0 ''Taux_Fiscalite'' \<noteq> loc_get dfB 0 ''Taux_Fiscalite''"
    "loc_get dfA 0 ''Investissement_Agriculture'' \<noteq> loc_get dfB 0 ''Investissement_Agriculture''"
    "loc_get dfA 0 ''Investissement_Peche'' \<noteq> loc_get dfB 0 ''Investissement_Peche''"
    "loc_get dfA 0 ''Investissement_Transport'' \<noteq> loc_get dfB 0 ''Investissement_Transport''"
    "loc_get dfA 0 ''Investissement_Education'' \<noteq> loc_get dfB 0 ''Investissement_Education''"
    "loc_get dfA 0 ''Investissement_Sante'' \<noteq> loc_get dfB 0 ''Investissement_Sante''"
    "loc_get dfA 0 ''Investissement_Culture'' \<noteq> loc_get dfB 0 ''Investissement_Culture''"
proof -
  have ne: "budget_base (get_commune_config commune_name) \<noteq> 0"
    using config_positive(2) [of commune_name] by simp
  show "loc_get dfA 0 ''Recettes_Totales'' \<noteq> loc_get dfB 0 ''Recettes_Totales''"
    by (rule differ_one [OF a b first_row_raw(1) first_row_raw(1)]) (simp_all add: ne init_def)
  show "loc_get dfA 0 ''Impots_Locaux'' \<noteq> loc_get dfB 0 ''Impots_Locaux''"
    by (rule differ_one [OF a b first_row_raw(2) first_row_raw(2)]) (simp_all add: ne init_def)
  show "loc_get dfA 0 ''Dotations_Etat'' \<noteq> loc_get dfB 0 ''Dotations_Etat''"
    by (rule differ_one [OF a b first_row_raw(3) first_row_raw(3)]) (simp_all add: ne init_def)
  show "loc_get dfA 0 ''Dotations_Territoriales'' \<noteq> loc_get dfB 0 ''Dotations_Territoriales''"
    by (rule differ_one [OF a b first_row_raw(4) first_row_raw(4)]) (simp_all add: ne init_def)
  show "loc_get dfA 0 ''Autres_Recettes'' \<noteq> loc_get dfB 0 ''Autres_Recettes''"
    by (rule differ_one [OF a b first_row_raw(5) first_row_raw(5)]) (simp_all add: ne init_def)
  show "loc_get dfA 0 ''Depenses_Totales'' \<noteq> loc_get dfB 0 ''Depenses_Totales''"
    by (rule differ_one [OF a b first_row_raw(6) first_row_raw(6)]) (simp_all add: ne init_def)
  show "loc_get dfA 0 ''Fonctionnement'' \<noteq> loc_get dfB 0 ''Fonctionnement''"
    by (rule differ_one [OF a b first_row_raw(7) first_row_raw(7)]) (simp_all add: ne init_def)
  show "loc_get dfA 0 ''Investissement'' \<noteq> loc_get dfB 0 ''Investissement''"
    by (rule differ_one [OF a b first_row_raw(8) first_row_raw(8)]) (simp_all add: ne init_def)
  show "loc_get dfA 0 ''Charge_Dette'' \<noteq> loc_get dfB 0 ''Charge_Dette''"
    by (rule differ_one [OF a b first_row_raw(9) first_row_raw(9)]) (simp_all add: ne init_def)
  show "loc_get dfA 0 ''Personnel'' \<noteq> loc_get dfB 0 ''Personnel''"
    by (rule differ_one [OF a b first_row_raw(10) first_row_raw(10)]) (simp_all add: ne init_def)
  show "loc_get dfA 0 ''Epargne_Brute'' \<noteq> loc_get dfB 0 ''Epargne_Brute''"
    by (rule differ_one [OF a b first_row_raw(11) first_row_raw(11)]) (simp_all add: ne init_def)
  show "loc_get dfA 0 ''Dette_Totale'' \<noteq> loc_get dfB 0 ''Dette_Totale''"
    by (rule differ_one [OF a b first_row_raw(12) first_row_raw(12)]) (simp_all add: ne init_def)
  show "loc_get dfA 0 ''Taux_Endettement'' \<noteq> loc_get dfB 0 ''Taux_Endettement''"
    by (rule differ_one [OF a b first_row_raw(13) first_row_raw(13)]) (simp_all add: ne init_def)
  show "loc_get dfA 0 ''Taux_Fiscalite'' \<noteq> loc_get dfB 0 ''Taux_Fiscalite''"
    by (rule differ_one [OF a b first_row_raw(14) first_row_raw(14)]) (simp_all add: ne init_def)
  show "loc_get dfA 0 ''Investissement_Agriculture'' \<noteq> loc_get dfB 0 ''Investissement_Agriculture''"
    by (rule differ_one [OF a b first_row_raw(15) first_row_raw(15)]) (simp_all add: ne init_def)
  show "loc_get dfA 0 ''Investissement_Peche'' \<noteq> loc_get dfB 0 ''Investissement_Peche''"
    by (rule differ_one [OF a b first_row_raw(16) first_row_raw(16)]) (simp_all add: ne init_def)
  show "loc_get dfA 0 ''Investissement_Transport'' \<noteq> loc_get dfB 0 ''Investissement_Transport''"
    by (rule differ_one [OF a b first_row_raw(17) first_row_raw(17)]) (simp_all add: ne init_def)
  show "loc_get dfA 0 ''Investissement_Education'' \<noteq> loc_get dfB 0 ''Investissement_Education''"
    by (rule differ_one [OF a b first_row_raw(18) first_row_raw(18)]) (simp_all add: ne init_def)
  show "loc_get dfA 0 ''Investissement_Sante'' \<noteq> loc_get dfB 0 ''Investissement_Sante''"
    by (rule differ_one [OF a b first_row_raw(19) first_row_raw(19)]) (simp_all add: ne init_def)
  show "loc_get dfA 0 ''Investissement_Culture'' \<noteq> loc_get dfB 0 ''Investissement_Culture''"
    by (rule differ_one [OF a b first_row_raw(20) first_row_raw(20)]) (simp_all add: ne init_def)
qed

text \<open>
  C9. The generators of \<open>Population\<close> and \<open>Menages\<close> take no draw from the random source.
  Two runs for the same analyzer, with any two sequences of draws and any two positions
  of the source, return tables whose \<open>Population\<close> columns are equal and whose \<open>Menages\<close>
  columns are equal: the lists \<open>population_base * (1 + rate * i)\<close> and
  \<open>(population_base / 4.5) * (1 + 0.008 * i)\<close> over the year indices. Every other metric
  depends on the draws: for every subdivision name the first row of each of the twenty
  other metric columns differs between a run without noise and a run with low draws.
\<close>

theorem C9_population_and_households_without_noise:
  "(\<exists>df1 df2.
      fst (generate_financial_data self z1 p1) = Some df1 \<and>
      fst (generate_financial_data self z2 p2) = Some df2 \<and>
      map_of df1 ''Population'' =
        Some (map (\<lambda>i. population_base (config self) *
                     (1 + (if type_c (config self) = ''chef_lieu'' then 0.01
                           else if type_c (config self) = ''district_futuna'' then 0.008
                           else 0.009) * real i))
                [0..<nat (end_year self - start_year self + 1)]) \<and>
      map_of df2 ''Population'' = map_of df1 ''Population'' \<and>
      map_of df1 ''Menages'' =
        Some (map (\<lambda>i. population_base (config self) / 4.5 * (1 + 0.008 * real i))
                [0..<nat (end_year self - start_year self + 1)]) \<and>
      map_of df2 ''Menages'' = map_of df1 ''Menages'') \<and>
   (\<exists>dfA dfB.
      fst (generate_financial_data (init commune_name) no_noise q1) = Some dfA \<and>
      fst (generate_financial_data (init commune_name) low_noise q2) = Some dfB \<and>
      list_all (\<lambda>c. loc_get dfA 0 c \<noteq> loc_get dfB 0 c)
              [''Recettes_Totales'',
               ''Impots_Locaux'',
               ''Dotations_Etat'',
               ''Dotations_Territoriales'',
               ''Autres_Recettes'',
               ''Depenses_Totales'',
               ''Fonctionnement'',
               ''Investissement'',
               ''Charge_Dette'',
               ''Personnel'',
               ''Epargne_Brute'',
               ''Dette_Totale'',
               ''Taux_Endettement'',
               ''Taux_Fiscalite'',
               ''Investissement_Agriculture'',
               ''Investissement_Peche'',
               ''Investissement_Transport'',
               ''Investissement_Education'',
               ''Investissement_Sante'',
               ''Investissement_Culture''])"
proof (rule conjI)
  obtain df1 where r1: "fst (generate_financial_data self z1 p1) = Some df1"
    using generated_cells [of self z1 p1] by (elim exE conjE)
  obtain df2 where r2: "fst (generate_financial_data self z2 p2) = Some df2"
    using generated_cells [of self z2 p2] by (elim exE conjE)
  have fixed: "''Population'' \<notin> set pass_columns" "''Menages'' \<notin> set pass_columns"
    by (simp_all add: pass_columns_def)
  have pop: "map_of df ''Population'' =
        Some (map (\<lambda>i. population_base (config self) *
                     (1 + (if type_c (config self) = ''chef_lieu'' then 0.01
                           else if type_c (config self) = ''district_futuna'' then 0.008
                           else 0.009) * real i))
                [0..<nat (end_year self - start_year self + 1)])"
    if "fst (generate_financial_data self z p) = Some df" for z p df
    unfolding generated_column [OF that fixed(1)] raw_table_lookup(1)
    by (simp add: simulate_population_map date_range_length)
  have men: "map_of df ''Menages'' =
        Some (map (\<lambda>i. population_base (config self) / 4.5 * (1 + 0.008 * real i))
                [0..<nat (end_year self - start_year self + 1)])"
    if "fst (generate_financial_data self z p) = Some df" for z p df
    unfolding generated_column [OF that fixed(2)] raw_table_lookup(2)
    by (simp add: simulate_households_map date_range_length)
  show "\<exists>df1 df2.
      fst (generate_financial_data self z1 p1) = Some df1 \<and>
      fst (generate_financial_data self z2 p2) = Some df2 \<and>
      map_of df1 ''Population'' =
        Some (map (\<lambda>i. population_base (config self) *
                     (1 + (if type_c (config self) = ''chef_lieu'' then 0.01
                           else if type_c (config self) = ''district_futuna'' then 0.008
                           else 0.009) * real i))
                [0..<nat (end_year self - start_year self + 1)]) \<and>
      map_of df2 ''Population'' = map_of df1 ''Population'' \<and>
      map_of df1 ''Menages'' =
        Some (map (\<lambda>i. population_base (config self) / 4.5 * (1 + 0.008 * real i))
                [0..<nat (end_year self - start_year self + 1)]) \<and>
      map_of df2 ''Menages'' = map_of df1 ''Menages''"
  proof (intro exI conjI)
    show "fst (generate_financial_data self z1 p1) = Some df1" by (rule r1)
    show "fst (generate_financial_data self z2 p2) = Some df2" by (rule r2)
    show "map_of df1 ''Population'' =
        Some (map (\<lambda>i. population_base (config self) *
                     (1 + (if type_c (config self) = ''chef_lieu'' then 0.01
                           else if type_c (config self) = ''district_futuna'' then 0.008
                           else 0.009) * real i))
                [0..<nat (end_year self - start_year self + 1)])"
      by (rule pop [OF r1])
    show "map_of df2 ''Population'' = map_of df1 ''Population''"
      unfolding pop [OF r1] pop [OF r2] by (rule refl)
    show "map_of df1 ''Menages'' =
        Some (map (\<lambda>i. population_base (config self) / 4.5 * (1 + 0.008 * real i))
                [0..<nat (end_year self - start_year self + 1)])"
      by (rule men [OF r1])
    show "map_of df2 ''Menages'' = map_of df1 ''Menages''"
      unfolding men [OF r1] men [OF r2] by (rule refl)
  qed
next
  obtain dfA where a: "fst (generate_financial_data (init commune_name) no_noise q1) = Some dfA"
    using generated_cells [of "init commune_name" no_noise q1] by (elim exE conjE)
  obtain dfB where b: "fst (generate_financial_data (init commune_name) low_noise q2) = Some dfB"
    using generated_cells [of "init commune_name" low_noise q2] by (elim exE conjE)
  have "list_all (\<lambda>c. loc_get dfA 0 c \<noteq> loc_get dfB 0 c)
              [''Recettes_Totales'',
               ''Impots_Locaux'',
               ''Dotations_Etat'',
               ''Dotations_Territoriales'',
               ''Autres_Recettes'',
               ''Depenses_Totales'',
               ''Fonctionnement'',
               ''Investissement'',
               ''Charge_Dette'',
               ''Personnel'',
               ''Epargne_Brute'',
               ''Dette_Totale'',
               ''Taux_Endettement'',
               ''Taux_Fiscalite'',
               ''Investissement_Agriculture'',
               ''Investissement_Peche'',
               ''Investissement_Transport'',
               ''Investissement_Education'',
               ''Investissement_Sante'',
               ''Investissement_Culture'']"
    by (simp add: noisy_columns_differ [OF a b])
  with a b show "\<exists>dfA dfB.
      fst (generate_financial_data (init commune_name) no_noise q1) = Some dfA \<and>
      fst (generate_financial_data (init commune_name) low_noise q2) = Some dfB \<and>
      list_all (\<lambda>c. loc_get dfA 0 c \<noteq> loc_get dfB 0 c)
              [''Recettes_Totales'',
               ''Impots_Locaux'',
               ''Dotations_Etat'',
               ''Dotations_Territoriales'',
               ''Autres_Recettes'',
               ''Depenses_Totales'',
               ''Fonctionnement'',
               ''Investissement'',
               ''Charge_Dette'',
               ''Personnel'',
               ''Epargne_Brute'',
               ''Dette_Totale'',
               ''Taux_Endettement'',
               ''Taux_Fiscalite'',
               ''Investissement_Agriculture'',
               ''Investissement_Peche'',
               ''Investissement_Transport'',
               ''Investissement_Education'',
               ''Investissement_Sante'',
               ''Investissement_Culture'']"
    by (intro exI conjI)
qed

end
